theory Spec2Isabelle
  imports Main "HOL-Library.Char_ord" "HOL-Library.List_Lexorder" "HOL-Library.Multiset"
begin

section \<open>Payloads and the Python primitives the handlers use\<close>

text \<open>
  A request body is a JSON value. Objects are association lists read with \<open>map_of\<close>
  (the dict that \<open>request.json\<close> returns). JSON numbers are integers here; fractional
  numbers are not represented.
\<close>

datatype json =
    JNull
  | JBool bool
  | JInt int
  | JStr string
  | JList "json list"
  | JObj "(string \<times> json) list"

text \<open>
  The exceptions that can be raised inside the handlers. \<open>StoreError\<close> stands for any
  exception of the database driver (connection failure, timeout); \<open>BadRequest\<close> for
  \<open>request.json\<close> failing to produce a body.
\<close>

datatype exn = KeyError | TypeError | AttributeError | IndexError | ValueError
  | StoreError | BadRequest

definition bind_exn :: "exn + 'a \<Rightarrow> ('a \<Rightarrow> exn + 'b) \<Rightarrow> exn + 'b" where
  "bind_exn m f = (case m of Inl e \<Rightarrow> Inl e | Inr x \<Rightarrow> f x)"

text \<open>\<open>obj[k]\<close>: KeyError on a dict without the key, TypeError on anything that is not a dict.\<close>

fun subscript :: "json \<Rightarrow> string \<Rightarrow> exn + json" where
  "subscript (JObj kvs) k = (case map_of kvs k of None \<Rightarrow> Inl KeyError | Some v \<Rightarrow> Inr v)"
| "subscript _ k = Inl TypeError"

text \<open>\<open>obj.get(k, d)\<close>: only dicts have the method.\<close>

fun dict_get :: "json \<Rightarrow> string \<Rightarrow> json \<Rightarrow> exn + json" where
  "dict_get (JObj kvs) k d = Inr (case map_of kvs k of None \<Rightarrow> d | Some v \<Rightarrow> v)"
| "dict_get _ k d = Inl AttributeError"

text \<open>Truth value of a JSON value in an \<open>if\<close> or \<open>and\<close>.\<close>

fun truthy :: "json \<Rightarrow> bool" where
  "truthy JNull = False"
| "truthy (JBool b) = b"
| "truthy (JInt n) = (n \<noteq> 0)"
| "truthy (JStr s) = (s \<noteq> [])"
| "truthy (JList xs) = (xs \<noteq> [])"
| "truthy (JObj kvs) = (kvs \<noteq> [])"

text \<open>\<open>s.split(sep)\<close> for a one-character separator: never an empty list.\<close>

fun split_chr :: "char \<Rightarrow> string \<Rightarrow> string list" where
  "split_chr sep [] = [[]]"
| "split_chr sep (c # cs) =
     (if c = sep then [] # split_chr sep cs
      else (case split_chr sep cs of
              [] \<Rightarrow> [[c]]
            | w # ws \<Rightarrow> (c # w) # ws))"

text \<open>\<open>v.split('/')\<close> on a payload value: only strings have the method.\<close>

fun py_split :: "json \<Rightarrow> char \<Rightarrow> exn + string list" where
  "py_split (JStr s) sep = Inr (split_chr sep s)"
| "py_split _ sep = Inl AttributeError"

text \<open>\<open>xs[-1]\<close>.\<close>

definition index_last :: "'a list \<Rightarrow> exn + 'a" where
  "index_last xs = (case xs of [] \<Rightarrow> Inl IndexError | _ \<Rightarrow> Inr (last xs))"

text \<open>Decimal rendering of integers, as \<open>str\<close> and f-strings produce it.\<close>

definition digit_char :: "nat \<Rightarrow> char" where
  "digit_char d = ''0123456789'' ! d"

fun show_nat :: "nat \<Rightarrow> string" where
  "show_nat n = (if n < 10 then [digit_char n] else show_nat (n div 10) @ [digit_char (n mod 10)])"

declare show_nat.simps [simp del]

definition show_int :: "int \<Rightarrow> string" where
  "show_int i = (if i < 0 then CHR ''-'' # show_nat (nat (- i)) else show_nat (nat i))"

text \<open>
  \<open>str(v)\<close> on a payload value. The rendering of lists and dicts (Python's \<open>repr\<close> of the
  nested values) is taken as the parameter \<open>repr\<close>.
\<close>

fun py_str :: "(json \<Rightarrow> string) \<Rightarrow> json \<Rightarrow> string" where
  "py_str repr (JStr s) = s"
| "py_str repr (JInt n) = show_int n"
| "py_str repr JNull = ''None''"
| "py_str repr (JBool b) = (if b then ''True'' else ''False'')"
| "py_str repr v = repr v"

section \<open>Event documents and the store\<close>

text \<open>
  The document both handlers build. \<open>request_id\<close> is the identity key. Fields copied from
  the payload keep whatever JSON value the payload had.
\<close>

record event_doc =
  request_id :: json
  author :: json
  action :: string
  from_branch :: json
  to_branch :: json
  timestamp :: json

text \<open>
  The collection is the list of its documents in insertion order. A store call either
  returns or raises; \<open>faults\<close> is the set of calls that raise while one request is served.
  \<open>find_one\<close> with the filter \<open>{'request_id': k}\<close> returns the first document whose key
  equals \<open>k\<close>, which is how the store matches a string key against string keys. Keys
  of other kinds are compared by equality too, which leaves out two readings of the
  store: an object key taken as a query operator, and a scalar key matched against the
  elements of a stored array. A call that raises leaves the collection as it was; an
  insert the driver refuses (a document it cannot encode, such as an integer beyond 64
  bits) is a raising insert, that is \<open>InsertOne\<close> in \<open>faults\<close>.
\<close>

type_synonym store = "event_doc list"

datatype store_op = FindOne | InsertOne | Find

definition find_one :: "store_op set \<Rightarrow> json \<Rightarrow> store \<Rightarrow> exn + event_doc option" where
  "find_one faults k s =
     (if FindOne \<in> faults then Inl StoreError else Inr (find (\<lambda>d. request_id d = k) s))"

definition insert_one :: "store_op set \<Rightarrow> event_doc \<Rightarrow> store \<Rightarrow> exn + store" where
  "insert_one faults d s = (if InsertOne \<in> faults then Inl StoreError else Inr (s @ [d]))"

text \<open>What a handler did with a notification (the message it prints).\<close>

datatype outcome = Inserted | AlreadyExists | Ignored | Failed exn

text \<open>
  The check and the insert that close both handlers (lines 87-93 and 139-145):
  skip when a document with the key exists, insert otherwise.
\<close>

definition store_if_new :: "store_op set \<Rightarrow> event_doc \<Rightarrow> store \<Rightarrow> exn + (outcome \<times> store)" where
  "store_if_new faults d s =
     bind_exn (find_one faults (request_id d) s) (\<lambda>found.
       case found of
         Some _ \<Rightarrow> Inr (AlreadyExists, s)
       | None \<Rightarrow> bind_exn (insert_one faults d s) (\<lambda>s'. Inr (Inserted, s')))"

text \<open>The \<open>except Exception\<close> of a handler: log, return, collection untouched.\<close>

definition catch_all :: "store \<Rightarrow> exn + (outcome \<times> store) \<Rightarrow> outcome \<times> store" where
  "catch_all s r = (case r of Inl e \<Rightarrow> (Failed e, s) | Inr res \<Rightarrow> res)"

section \<open>Push events\<close>

text \<open>Lines 72-85 of \<open>handle_push_event\<close>: the fields and the document.\<close>

definition push_event_doc :: "json \<Rightarrow> exn + event_doc" where
  "push_event_doc payload =
     bind_exn (subscript payload ''head_commit'') (\<lambda>hc.
     bind_exn (subscript hc ''id'') (\<lambda>rid.
     bind_exn (subscript payload ''pusher'') (\<lambda>pusher.
     bind_exn (subscript pusher ''name'') (\<lambda>auth.
     bind_exn (subscript payload ''ref'') (\<lambda>ref.
     bind_exn (py_split ref CHR ''/'') (\<lambda>parts.
     bind_exn (index_last parts) (\<lambda>branch.
     bind_exn (subscript payload ''head_commit'') (\<lambda>hc2.
     bind_exn (subscript hc2 ''timestamp'') (\<lambda>ts.
       Inr \<lparr> request_id = rid, author = auth, action = ''PUSH'',
             from_branch = JNull, to_branch = JStr branch, timestamp = ts \<rparr>)))))))))"

definition handle_push_event :: "store_op set \<Rightarrow> json \<Rightarrow> store \<Rightarrow> outcome \<times> store" where
  "handle_push_event faults payload s =
     catch_all s (bind_exn (push_event_doc payload) (\<lambda>d. store_if_new faults d s))"

text \<open>
  The last segment as the specification words it: what follows the last separator, the
  whole string when there is none.
\<close>

definition last_segment :: "char \<Rightarrow> string \<Rightarrow> string" where
  "last_segment sep s = rev (takeWhile (\<lambda>c. c \<noteq> sep) (rev s))"

text \<open>
  An instance of the \<open>repr\<close> parameter: Python's rendering of values whose strings need no
  escaping (printable, without quotes or backslashes).
\<close>

fun join :: "string \<Rightarrow> string list \<Rightarrow> string" where
  "join sep [] = []"
| "join sep [x] = x"
| "join sep (x # y # ys) = x @ sep @ join sep (y # ys)"

fun plain_repr :: "json \<Rightarrow> string" where
  "plain_repr JNull = ''None''"
| "plain_repr (JBool b) = (if b then ''True'' else ''False'')"
| "plain_repr (JInt n) = show_int n"
| "plain_repr (JStr s) = [CHR 0x27] @ s @ [CHR 0x27]"
| "plain_repr (JList xs) = ''['' @ join '', '' (map plain_repr xs) @ '']''"
| "plain_repr (JObj kvs) =
     ''{'' @ join '', '' (map (\<lambda>kv. [CHR 0x27] @ fst kv @ [CHR 0x27] @ '': '' @ plain_repr (snd kv)) kvs)
          @ ''}''"

section \<open>Pull-request events\<close>

text \<open>
  Lines 106-137 of \<open>handle_pull_request_event\<close>. \<open>None\<close> is the branch that ignores the
  action. The default of \<open>get('merged_at', pull_request['updated_at'])\<close> is evaluated
  before the call, so a missing \<open>updated_at\<close> raises even when \<open>merged_at\<close> is there.
\<close>

definition pr_event_doc :: "(json \<Rightarrow> string) \<Rightarrow> json \<Rightarrow> exn + event_doc option" where
  "pr_event_doc repr payload =
     bind_exn (subscript payload ''action'') (\<lambda>act.
     bind_exn (subscript payload ''pull_request'') (\<lambda>pr.
     bind_exn (subscript pr ''id'') (\<lambda>idv.
     bind_exn (subscript pr ''user'') (\<lambda>usr.
     bind_exn (subscript usr ''login'') (\<lambda>auth.
     bind_exn (subscript pr ''head'') (\<lambda>hd_obj.
     bind_exn (subscript hd_obj ''ref'') (\<lambda>fb.
     bind_exn (subscript pr ''base'') (\<lambda>base_obj.
     bind_exn (subscript base_obj ''ref'') (\<lambda>tb.
     bind_exn (if act = JStr ''opened'' then subscript pr ''created_at''
               else bind_exn (subscript pr ''updated_at'') (\<lambda>upd.
                    dict_get pr ''merged_at'' upd)) (\<lambda>ts.
     bind_exn (if act = JStr ''closed''
               then bind_exn (dict_get pr ''merged'' (JBool False)) (\<lambda>m. Inr (truthy m))
               else Inr False) (\<lambda>is_merge.
       if is_merge then
         Inr (Some \<lparr> request_id = JStr (''merge_'' @ py_str repr idv), author = auth,
                     action = ''MERGE'', from_branch = fb, to_branch = tb, timestamp = ts \<rparr>)
       else if act = JStr ''opened'' then
         Inr (Some \<lparr> request_id = JStr (''pr_'' @ py_str repr idv), author = auth,
                     action = ''PULL_REQUEST'', from_branch = fb, to_branch = tb,
                     timestamp = ts \<rparr>)
       else Inr None)))))))))))"

definition handle_pull_request_event ::
    "(json \<Rightarrow> string) \<Rightarrow> store_op set \<Rightarrow> json \<Rightarrow> store \<Rightarrow> outcome \<times> store" where
  "handle_pull_request_event repr faults payload s =
     catch_all s (bind_exn (pr_event_doc repr payload) (\<lambda>r.
       case r of
         None \<Rightarrow> Inr (Ignored, s)
       | Some d \<Rightarrow> store_if_new faults d s))"

section \<open>The webhook endpoint\<close>

text \<open>
  A response is its status code and the \<open>status\<close> field of its body. The endpoint gets
  the value of the \<open>X-GitHub-Event\<close> header (\<open>None\<close> when absent) and the result of
  \<open>request.json\<close>, which is a value or an exception. The handlers catch every exception
  themselves and return nothing, so the endpoint's own \<open>except\<close> is reached only from
  \<open>request.json\<close>.
\<close>

datatype response = Response nat string

definition webhook ::
    "(json \<Rightarrow> string) \<Rightarrow> store_op set \<Rightarrow> string option \<Rightarrow> exn + json \<Rightarrow> store
      \<Rightarrow> response \<times> store" where
  "webhook repr faults event_type body s =
     (case body of
        Inl e \<Rightarrow> (Response 500 ''error'', s)
      | Inr payload \<Rightarrow>
          if event_type = Some ''push'' then
            (Response 200 ''success'', snd (handle_push_event faults payload s))
          else if event_type = Some ''pull_request'' then
            (Response 200 ''success'', snd (handle_pull_request_event repr faults payload s))
          else (Response 200 ''success'', s))"

text \<open>
  Notifications served one after the other: each is the faults of the store while it is
  served, the event header and the body.
\<close>

type_synonym notification = "store_op set \<times> string option \<times> (exn + json)"

fun process_all :: "(json \<Rightarrow> string) \<Rightarrow> notification list \<Rightarrow> store \<Rightarrow> store" where
  "process_all repr [] s = s"
| "process_all repr ((faults, event_type, body) # ns) s =
     process_all repr ns (snd (webhook repr faults event_type body s))"

section \<open>Handlers served at the same time\<close>

text \<open>
  A handler makes two store calls, \<open>find_one\<close> and then \<open>insert_one\<close>, and nothing in
  the source keeps another request from running between them. A thread is a handler at
  one of its three points: not started, after a \<open>find_one\<close> that found nothing, finished.
  Each store call is one step; a schedule names the thread that takes the next step.
\<close>

datatype handler = PushHandler | PullRequestHandler

datatype thread = Pending handler json | Checked event_doc | Done outcome

definition extract_doc :: "(json \<Rightarrow> string) \<Rightarrow> handler \<Rightarrow> json \<Rightarrow> exn + event_doc option" where
  "extract_doc repr h payload =
     (case h of
        PushHandler \<Rightarrow> bind_exn (push_event_doc payload) (\<lambda>d. Inr (Some d))
      | PullRequestHandler \<Rightarrow> pr_event_doc repr payload)"

fun thread_step :: "(json \<Rightarrow> string) \<Rightarrow> store_op set \<Rightarrow> thread \<Rightarrow> store \<Rightarrow> thread \<times> store" where
  "thread_step repr faults (Pending h payload) s =
     (case extract_doc repr h payload of
        Inl e \<Rightarrow> (Done (Failed e), s)
      | Inr None \<Rightarrow> (Done Ignored, s)
      | Inr (Some d) \<Rightarrow>
          (case find_one faults (request_id d) s of
             Inl e \<Rightarrow> (Done (Failed e), s)
           | Inr (Some _) \<Rightarrow> (Done AlreadyExists, s)
           | Inr None \<Rightarrow> (Checked d, s)))"
| "thread_step repr faults (Checked d) s =
     (case insert_one faults d s of
        Inl e \<Rightarrow> (Done (Failed e), s)
      | Inr s' \<Rightarrow> (Done Inserted, s'))"
| "thread_step repr faults (Done out) s = (Done out, s)"

fun run_schedule ::
    "(json \<Rightarrow> string) \<Rightarrow> nat list \<Rightarrow> thread list \<times> store \<Rightarrow> thread list \<times> store" where
  "run_schedule repr [] st = st"
| "run_schedule repr (i # sched) (ts, s) =
     (if i < length ts
      then (case thread_step repr {} (ts ! i) s of
              (t', s') \<Rightarrow> run_schedule repr sched (ts[i := t'], s'))
      else run_schedule repr sched (ts, s))"

section \<open>The feed\<close>

text \<open>
  \<open>s.replace(old, new)\<close>: occurrences are replaced from the left without overlap; with an
  empty \<open>old\<close> the new text goes before every character and at the end.
\<close>

fun replace_from :: "string \<Rightarrow> string \<Rightarrow> string \<Rightarrow> string" where
  "replace_from old new [] = []"
| "replace_from old new (c # cs) =
     (if old \<noteq> [] \<and> take (length old) (c # cs) = old
      then new @ replace_from old new (drop (length old) (c # cs))
      else c # replace_from old new cs)"

definition py_replace :: "string \<Rightarrow> string \<Rightarrow> string \<Rightarrow> string" where
  "py_replace old new s =
     (if old = [] then new @ concat (map (\<lambda>c. c # new) s) else replace_from old new s)"

text \<open>
  What \<open>datetime.fromisoformat\<close> returns: the fields of a \<open>datetime\<close>, the offset from
  UTC in seconds (\<open>None\<close> for a naive value). The parser itself belongs to the standard
  library, and \<open>format_timestamp\<close> and \<open>get_events\<close> take it as the parameter
  \<open>parse\<close>, \<open>None\<close> standing for the ValueError.
\<close>

record datetime =
  dt_year :: nat
  dt_month :: nat
  dt_day :: nat
  dt_hour :: nat
  dt_minute :: nat
  dt_second :: nat
  dt_microsecond :: nat
  dt_utcoffset :: "int option"

text \<open>
  An instance of the parser for the strings \<open>YYYY-MM-DD\<close>, optionally followed by one
  separator character, a time \<open>HH:MM\<close>, \<open>HH:MM:SS\<close>, \<open>HH:MM:SS.fff\<close> or
  \<open>HH:MM:SS.ffffff\<close>, and optionally an offset \<open>+HH:MM\<close> or \<open>-HH:MM\<close>. Other strings
  are rejected by this instance, among them forms that later versions of the library
  accept (an hour alone, dates without dashes); the properties below that hold for every
  parser are stated over the parameter.
\<close>

definition is_digit :: "char \<Rightarrow> bool" where
  "is_digit c = (CHR ''0'' \<le> c \<and> c \<le> CHR ''9'')"

definition digit_val :: "char \<Rightarrow> nat" where
  "digit_val c = of_char c - 48"

definition digits_val :: "string \<Rightarrow> nat option" where
  "digits_val cs =
     (if cs \<noteq> [] \<and> list_all is_digit cs
      then Some (foldl (\<lambda>n c. 10 * n + digit_val c) 0 cs) else None)"

definition leap_year :: "nat \<Rightarrow> bool" where
  "leap_year y = (y mod 4 = 0 \<and> (y mod 100 \<noteq> 0 \<or> y mod 400 = 0))"

definition days_in_month :: "nat \<Rightarrow> nat \<Rightarrow> nat" where
  "days_in_month y m =
     (if m = 2 then (if leap_year y then 29 else 28)
      else if m = 4 \<or> m = 6 \<or> m = 9 \<or> m = 11 then 30 else 31)"

definition parse_date :: "string \<Rightarrow> (nat \<times> nat \<times> nat) option" where
  "parse_date s =
     (if length s = 10 \<and> s ! 4 = CHR ''-'' \<and> s ! 7 = CHR ''-'' then
        (case (digits_val (take 4 s), digits_val (take 2 (drop 5 s)), digits_val (drop 8 s)) of
           (Some y, Some m, Some d) \<Rightarrow>
             if 1 \<le> y \<and> 1 \<le> m \<and> m \<le> 12 \<and> 1 \<le> d \<and> d \<le> days_in_month y m
             then Some (y, m, d) else None
         | _ \<Rightarrow> None)
      else None)"

definition parse_time :: "string \<Rightarrow> (nat \<times> nat \<times> nat \<times> nat) option" where
  "parse_time s =
     (if length s \<in> {5, 8, 12, 15} \<and> s ! 2 = CHR '':''
         \<and> (8 \<le> length s \<longrightarrow> s ! 5 = CHR '':'') \<and> (12 \<le> length s \<longrightarrow> s ! 8 = CHR ''.'') then
        (case (digits_val (take 2 s), digits_val (take 2 (drop 3 s)),
               if 8 \<le> length s then digits_val (take 2 (drop 6 s)) else Some 0,
               if 12 \<le> length s then digits_val (drop 9 s) else Some 0) of
           (Some h, Some mi, Some sec, Some frac) \<Rightarrow>
             if h < 24 \<and> mi < 60 \<and> sec < 60
             then Some (h, mi, sec, if length s = 12 then frac * 1000 else frac) else None
         | _ \<Rightarrow> None)
      else None)"

definition parse_offset :: "string \<Rightarrow> int option" where
  "parse_offset s =
     (if length s = 6 \<and> (s ! 0 = CHR ''+'' \<or> s ! 0 = CHR ''-'') \<and> s ! 3 = CHR '':'' then
        (case (digits_val (take 2 (drop 1 s)), digits_val (drop 4 s)) of
           (Some h, Some mi) \<Rightarrow>
             if h < 24 \<and> mi < 60
             then Some ((if s ! 0 = CHR ''-'' then - 1 else 1) * (int h * 3600 + int mi * 60))
             else None
         | _ \<Rightarrow> None)
      else None)"

definition fromisoformat :: "string \<Rightarrow> datetime option" where
  "fromisoformat s =
     (case parse_date (take 10 s) of
        None \<Rightarrow> None
      | Some (y, m, d) \<Rightarrow>
          if length s = 10 then
            Some \<lparr> dt_year = y, dt_month = m, dt_day = d, dt_hour = 0, dt_minute = 0,
                   dt_second = 0, dt_microsecond = 0, dt_utcoffset = None \<rparr>
          else
            (let rest = drop 11 s;
                 tpart = takeWhile (\<lambda>c. c \<noteq> CHR ''+'' \<and> c \<noteq> CHR ''-'') rest;
                 zpart = dropWhile (\<lambda>c. c \<noteq> CHR ''+'' \<and> c \<noteq> CHR ''-'') rest
             in case parse_time tpart of
                  None \<Rightarrow> None
                | Some (h, mi, sec, us) \<Rightarrow>
                    if zpart = [] then
                      Some \<lparr> dt_year = y, dt_month = m, dt_day = d, dt_hour = h,
                             dt_minute = mi, dt_second = sec, dt_microsecond = us,
                             dt_utcoffset = None \<rparr>
                    else (case parse_offset zpart of
                            None \<Rightarrow> None
                          | Some off \<Rightarrow>
                              Some \<lparr> dt_year = y, dt_month = m, dt_day = d, dt_hour = h,
                                     dt_minute = mi, dt_second = sec, dt_microsecond = us,
                                     dt_utcoffset = Some off \<rparr>)))"

text \<open>
  \<open>dt.strftime(fmt)\<close> for the directives the source uses (\<open>%d %B %Y %I %M %p\<close>, in the
  C locale) and \<open>%%\<close>; any other directive is left as it is. \<open>%Y\<close> is the year in
  decimal, which has four digits from the year 1000 on.
\<close>

definition two_digits :: "nat \<Rightarrow> string" where
  "two_digits n = (if n < 10 then CHR ''0'' # show_nat n else show_nat n)"

definition month_name :: "nat \<Rightarrow> string" where
  "month_name m =
     [''January'', ''February'', ''March'', ''April'', ''May'', ''June'', ''July'',
      ''August'', ''September'', ''October'', ''November'', ''December''] ! (m - 1)"

definition hour12 :: "nat \<Rightarrow> nat" where
  "hour12 h = (if h mod 12 = 0 then 12 else h mod 12)"

definition directive :: "datetime \<Rightarrow> char \<Rightarrow> string" where
  "directive dt c =
     (if c = CHR ''d'' then two_digits (dt_day dt)
      else if c = CHR ''B'' then month_name (dt_month dt)
      else if c = CHR ''Y'' then show_nat (dt_year dt)
      else if c = CHR ''I'' then two_digits (hour12 (dt_hour dt))
      else if c = CHR ''M'' then two_digits (dt_minute dt)
      else if c = CHR ''p'' then (if dt_hour dt < 12 then ''AM'' else ''PM'')
      else if c = CHR ''%'' then ''%''
      else [CHR ''%'', c])"

fun strftime :: "datetime \<Rightarrow> string \<Rightarrow> string" where
  "strftime dt (c # d # cs) =
     (if c = CHR ''%'' then directive dt d @ strftime dt cs else c # strftime dt (d # cs))"
| "strftime dt cs = cs"

text \<open>
  Lines 171-195, \<open>format_timestamp\<close>. A value that is not a string has no \<open>replace\<close>, a
  string may fail to parse: both are caught and the value is returned as it came. The
  format string is the f-string with the suffix spliced in; the \<open>replace\<close> of line 189
  replaces a text by itself.
\<close>

definition ordinal_suffix :: "nat \<Rightarrow> string" where
  "ordinal_suffix day =
     (if 10 \<le> day mod 100 \<and> day mod 100 \<le> 20 then ''th''
      else (case map_of [(1::nat, ''st''), (2, ''nd''), (3, ''rd'')] (day mod 10) of
              None \<Rightarrow> ''th'' | Some sfx \<Rightarrow> sfx))"

definition format_timestamp :: "(string \<Rightarrow> datetime option) \<Rightarrow> json \<Rightarrow> json" where
  "format_timestamp parse timestamp_str =
     (case timestamp_str of
        JStr s \<Rightarrow>
          (case parse (py_replace ''Z'' ''+00:00'' s) of
             None \<Rightarrow> timestamp_str
           | Some dt \<Rightarrow>
               (let day = dt_day dt;
                    suffix = ordinal_suffix day;
                    formatted = strftime dt (''%d'' @ suffix @ '' %B %Y - %I:%M %p UTC'');
                    formatted = py_replace (show_nat day @ suffix) (show_nat day @ suffix) formatted
                in JStr formatted))
      | _ \<Rightarrow> timestamp_str)"

text \<open>
  The order in which the store sorts field values: values of different kinds by kind,
  numbers by value, strings byte by byte. This is the store's order on scalar values.
  Two objects or two arrays are not ordered against each other here, and an array is
  ranked as a kind, where the store sorts it by its elements. The sort is an insertion sort that keeps the stored order of
  equal timestamps.
\<close>

fun bson_rank :: "json \<Rightarrow> nat" where
  "bson_rank JNull = 1"
| "bson_rank (JInt n) = 2"
| "bson_rank (JStr s) = 3"
| "bson_rank (JObj kvs) = 4"
| "bson_rank (JList xs) = 5"
| "bson_rank (JBool b) = 6"

fun bson_le :: "json \<Rightarrow> json \<Rightarrow> bool" where
  "bson_le (JInt m) (JInt n) = (m \<le> n)"
| "bson_le (JStr s) (JStr t) = (s \<le> t)"
| "bson_le (JBool p) (JBool q) = (p \<longrightarrow> q)"
| "bson_le a b = (bson_rank a \<le> bson_rank b)"

fun insert_desc :: "event_doc \<Rightarrow> event_doc list \<Rightarrow> event_doc list" where
  "insert_desc x [] = [x]"
| "insert_desc x (y # ys) =
     (if bson_le (timestamp y) (timestamp x) then x # y # ys else y # insert_desc x ys)"

definition sort_desc :: "event_doc list \<Rightarrow> event_doc list" where
  "sort_desc xs = foldr insert_desc xs []"

text \<open>Lines 152-169, \<open>get_events\<close>: \<open>Inl\<close> is the 500 response.\<close>

definition get_events ::
    "(string \<Rightarrow> datetime option) \<Rightarrow> store_op set \<Rightarrow> store \<Rightarrow> exn + (event_doc \<times> json) list" where
  "get_events parse faults s =
     (if Find \<in> faults then Inl StoreError
      else Inr (map (\<lambda>event. (event, format_timestamp parse (timestamp event))) (sort_desc s)))"

section \<open>The rendering and the moment of a timestamp as the specification words them\<close>

text \<open>
  The suffix of a day: 11, 12 and 13 take \<open>th\<close>, otherwise the last digit decides. The
  rendering \<open>DDth Month YYYY - HH:MM AM/PM UTC\<close>.
\<close>

definition spec_suffix :: "nat \<Rightarrow> string" where
  "spec_suffix day =
     (if day = 11 \<or> day = 12 \<or> day = 13 then ''th''
      else if day mod 10 = 1 then ''st''
      else if day mod 10 = 2 then ''nd''
      else if day mod 10 = 3 then ''rd''
      else ''th'')"

definition spec_format :: "datetime \<Rightarrow> string" where
  "spec_format dt =
     two_digits (dt_day dt) @ spec_suffix (dt_day dt) @ '' '' @ month_name (dt_month dt) @ '' ''
       @ show_nat (dt_year dt) @ '' - '' @ two_digits (hour12 (dt_hour dt)) @ '':''
       @ two_digits (dt_minute dt) @ '' '' @ (if dt_hour dt < 12 then ''AM'' else ''PM'')
       @ '' UTC''"


text \<open>
  The moment a timestamp denotes, in seconds since 1970-01-01T00:00:00Z: the civil date
  and time less the offset (a value without an offset is read as UTC).
\<close>

definition days_from_civil :: "nat \<Rightarrow> nat \<Rightarrow> nat \<Rightarrow> int" where
  "days_from_civil y m d =
     (let y' = int y - (if m \<le> 2 then 1 else 0);
          era = y' div 400;
          yoe = y' - era * 400;
          doy = (153 * int ((m + 9) mod 12) + 2) div 5 + int d - 1;
          doe = yoe * 365 + yoe div 4 - yoe div 100 + doy
      in era * 146097 + doe - 719468)"

definition utc_seconds :: "datetime \<Rightarrow> int" where
  "utc_seconds dt =
     days_from_civil (dt_year dt) (dt_month dt) (dt_day dt) * 86400
       + int (dt_hour dt) * 3600 + int (dt_minute dt) * 60 + int (dt_second dt)
       - (case dt_utcoffset dt of None \<Rightarrow> 0 | Some off \<Rightarrow> off)"

definition instant_of :: "json \<Rightarrow> int option" where
  "instant_of ts =
     (case ts of
        JStr s \<Rightarrow> map_option utc_seconds (fromisoformat (py_replace ''Z'' ''+00:00'' s))
      | _ \<Rightarrow> None)"



section \<open>The classifier and field paths as the specification words them\<close>

text \<open>A field path \<open>a.b\<close> of a payload value.\<close>

definition field_path :: "json \<Rightarrow> string \<Rightarrow> string \<Rightarrow> exn + json" where
  "field_path v a b = bind_exn (subscript v a) (\<lambda>w. subscript w b)"

text \<open>
  The classifier of the specification: the kind of a notification. It is written over
  the test made on the \<open>merged\<close> field, so that the test can be stated twice below.
\<close>

datatype kind = Push | PullRequestOpened | Merge | Unhandled

definition classify_with :: "(json \<Rightarrow> bool) \<Rightarrow> string option \<Rightarrow> json \<Rightarrow> kind" where
  "classify_with merged event_type payload =
     (if event_type = Some ''push'' then Push
      else if event_type = Some ''pull_request'' then
        (if subscript payload ''action'' = Inr (JStr ''opened'') then PullRequestOpened
         else if subscript payload ''action'' = Inr (JStr ''closed'') \<and> merged payload
         then Merge
         else Unhandled)
      else Unhandled)"

text \<open>
  The test in the words of the specification: the pull request has a boolean \<open>merged\<close>
  field and it is true.
\<close>

definition merged_true :: "json \<Rightarrow> bool" where
  "merged_true payload = (field_path payload ''pull_request'' ''merged'' = Inr (JBool True))"

definition classify :: "string option \<Rightarrow> json \<Rightarrow> kind" where
  "classify = classify_with merged_true"

text \<open>
  The test the handler makes, \<open>pull_request.get('merged', False)\<close> in a condition: the
  value counts as true unless it is null, false, zero or empty; an absent field counts as
  false.
\<close>

definition merged_truthy :: "json \<Rightarrow> bool" where
  "merged_truthy payload =
     (case subscript payload ''pull_request'' of
        Inl e \<Rightarrow> False
      | Inr pr \<Rightarrow> (case dict_get pr ''merged'' (JBool False) of
                     Inl e \<Rightarrow> False
                   | Inr m \<Rightarrow> truthy m))"

definition classify_truthy :: "string option \<Rightarrow> json \<Rightarrow> kind" where
  "classify_truthy = classify_with merged_truthy"

text \<open>The fields every pull-request document is built from.\<close>

definition pr_fields :: "json \<Rightarrow> json \<Rightarrow> json \<Rightarrow> json \<Rightarrow> json \<Rightarrow> bool" where
  "pr_fields pr idv login head_ref base_ref =
     (subscript pr ''id'' = Inr idv
      \<and> field_path pr ''user'' ''login'' = Inr login
      \<and> field_path pr ''head'' ''ref'' = Inr head_ref
      \<and> field_path pr ''base'' ''ref'' = Inr base_ref)"

section \<open>Sample payloads\<close>

text \<open>
  A push whose head commit carries a local-time offset, and a pull request with id 123;
  \<open>pr_123 act extra\<close> has the given action and the extra fields in its pull request.
\<close>

definition push_9fceb02 :: json where
  "push_9fceb02 =
     JObj [(''ref'', JStr ''refs/heads/main''),
           (''pusher'', JObj [(''name'', JStr ''octocat'')]),
           (''head_commit'', JObj [(''id'', JStr ''9fceb02''),
                                   (''timestamp'', JStr ''2024-01-01T23:00:00+05:30'')])]"

definition doc_9fceb02 :: event_doc where
  "doc_9fceb02 =
     \<lparr> request_id = JStr ''9fceb02'', author = JStr ''octocat'', action = ''PUSH'',
       from_branch = JNull, to_branch = JStr ''main'',
       timestamp = JStr ''2024-01-01T23:00:00+05:30'' \<rparr>"

definition pr_123 :: "string \<Rightarrow> (string \<times> json) list \<Rightarrow> json" where
  "pr_123 act extra =
     JObj [(''action'', JStr act),
           (''pull_request'',
              JObj ([(''id'', JInt 123),
                     (''user'', JObj [(''login'', JStr ''hubot'')]),
                     (''head'', JObj [(''ref'', JStr ''feature'')]),
                     (''base'', JObj [(''ref'', JStr ''main'')]),
                     (''created_at'', JStr ''2024-01-01T20:00:00Z''),
                     (''updated_at'', JStr ''2024-01-02T08:00:00Z'')] @ extra))]"

definition doc_pr_123 :: event_doc where
  "doc_pr_123 =
     \<lparr> request_id = JStr ''pr_123'', author = JStr ''hubot'', action = ''PULL_REQUEST'',
       from_branch = JStr ''feature'', to_branch = JStr ''main'',
       timestamp = JStr ''2024-01-01T20:00:00Z'' \<rparr>"


definition doc_merge_123 :: "json \<Rightarrow> event_doc" where
  "doc_merge_123 ts =
     \<lparr> request_id = JStr ''merge_123'', author = JStr ''hubot'', action = ''MERGE'',
       from_branch = JStr ''feature'', to_branch = JStr ''main'', timestamp = ts \<rparr>"

section \<open>Properties of the normalizers and the store gateway\<close>


lemma split_chr_nonempty: "split_chr sep s \<noteq> []"
  by (induction s) (auto split: list.splits)

lemma split_chr_no_sep: "sep \<notin> set s \<Longrightarrow> split_chr sep s = [s]"
  by (induction s) auto

lemma split_chr_sep_tl: "sep \<in> set s \<Longrightarrow> tl (split_chr sep s) \<noteq> []"
  by (induction s) (auto simp: split_chr_nonempty split_chr_no_sep split: list.splits)

lemma last_split_chr: "last (split_chr sep s) = last_segment sep s"
proof (induction s)
  case Nil
  show ?case by (simp add: last_segment_def)
next
  case (Cons c cs)
  show ?case
  proof (cases "sep \<in> set cs")
    case True
    then have seg: "last_segment sep (c # cs) = last_segment sep cs"
      by (auto simp: last_segment_def takeWhile_append)
    from True have "tl (split_chr sep cs) \<noteq> []" by (rule split_chr_sep_tl)
    then have "last (split_chr sep (c # cs)) = last (split_chr sep cs)"
      by (auto simp: split_chr_nonempty split: list.splits)
    with seg Cons show ?thesis by simp
  next
    case False
    then have "last_segment sep (c # cs) = (if c = sep then cs else c # cs)"
      by (auto simp: last_segment_def takeWhile_append)
    with False show ?thesis by (simp add: split_chr_no_sep)
  qed
qed

lemma last_segment_no_sep: "sep \<notin> set (last_segment sep s)"
  using set_takeWhileD [of sep "\<lambda>c. c \<noteq> sep" "rev s"] by (auto simp: last_segment_def)

lemma last_segment_whole: "sep \<notin> set s \<Longrightarrow> last_segment sep s = s"
proof -
  assume "sep \<notin> set s"
  then have eq: "takeWhile (\<lambda>c. c \<noteq> sep) (rev s) = rev s"
    unfolding takeWhile_eq_all_conv by auto
  show ?thesis unfolding last_segment_def eq by (rule rev_rev_ident)
qed

lemma last_segment_suffix:
  "\<exists>pre. s = pre @ last_segment sep s \<and> (pre = [] \<or> last pre = sep)"
proof -
  let ?r = "rev s"
  let ?P = "\<lambda>c. c \<noteq> sep"
  have split: "s = rev (dropWhile ?P ?r) @ last_segment sep s"
    using takeWhile_dropWhile_id [of ?P ?r]
    by (metis last_segment_def rev_append rev_rev_ident)
  have "dropWhile ?P ?r = [] \<or> hd (dropWhile ?P ?r) = sep"
    using hd_dropWhile [of ?P ?r] by auto
  then have "rev (dropWhile ?P ?r) = [] \<or> last (rev (dropWhile ?P ?r)) = sep"
    by (auto simp: last_rev)
  with split show ?thesis by blast
qed

lemma index_last_split: "index_last (split_chr sep s) = Inr (last_segment sep s)"
  using split_chr_nonempty [of sep s]
  by (cases "split_chr sep s") (simp_all add: index_last_def flip: last_split_chr)

text \<open>
  C2. For a push payload in which \<open>head_commit.id\<close>, \<open>head_commit.timestamp\<close> and
  \<open>pusher.name\<close> can be read and \<open>ref\<close> is a string, the push normalizer returns the
  document with identity key \<open>head_commit.id\<close>, author \<open>pusher.name\<close>, action PUSH,
  no source branch, the timestamp of the head commit unchanged, and as target branch the
  last segment of the ref: the part after the last \<open>/\<close>, which contains no \<open>/\<close>,
  and which is the whole ref when the ref has no \<open>/\<close>.
\<close>

theorem push_normalizer_fields:
  assumes "subscript payload ''head_commit'' = Inr hc"
    and "subscript hc ''id'' = Inr cid"
    and "subscript hc ''timestamp'' = Inr ts"
    and "subscript payload ''pusher'' = Inr pusher"
    and "subscript pusher ''name'' = Inr nm"
    and "subscript payload ''ref'' = Inr (JStr ref)"
  shows "push_event_doc payload =
           Inr \<lparr> request_id = cid, author = nm, action = ''PUSH'', from_branch = JNull,
                 to_branch = JStr (last_segment CHR ''/'' ref), timestamp = ts \<rparr>
         \<and> CHR ''/'' \<notin> set (last_segment CHR ''/'' ref)
         \<and> (\<exists>pre. ref = pre @ last_segment CHR ''/'' ref \<and> (pre = [] \<or> last pre = CHR ''/''))
         \<and> (CHR ''/'' \<notin> set ref \<longrightarrow> last_segment CHR ''/'' ref = ref)"
proof -
  have "push_event_doc payload =
          Inr \<lparr> request_id = cid, author = nm, action = ''PUSH'', from_branch = JNull,
                to_branch = JStr (last_segment CHR ''/'' ref), timestamp = ts \<rparr>"
    using assms by (simp add: push_event_doc_def bind_exn_def index_last_split)
  then show ?thesis
    using last_segment_suffix [of ref "CHR ''/''"]
    by (simp add: last_segment_no_sep last_segment_whole)
qed

theorem push_normalizer_fields_witness:
  "push_event_doc
     (JObj [(''ref'', JStr ''refs/heads/feature/login''),
            (''pusher'', JObj [(''name'', JStr ''octocat'')]),
            (''head_commit'', JObj [(''id'', JStr ''9fceb02''),
                                    (''timestamp'', JStr ''2024-01-01T10:00:00+05:30'')])])
   = Inr \<lparr> request_id = JStr ''9fceb02'', author = JStr ''octocat'', action = ''PUSH'',
           from_branch = JNull, to_branch = JStr ''login'',
           timestamp = JStr ''2024-01-01T10:00:00+05:30'' \<rparr>"
  using push_normalizer_fields
    [of "JObj [(''ref'', JStr ''refs/heads/feature/login''),
               (''pusher'', JObj [(''name'', JStr ''octocat'')]),
               (''head_commit'', JObj [(''id'', JStr ''9fceb02''),
                                       (''timestamp'', JStr ''2024-01-01T10:00:00+05:30'')])]"
        "JObj [(''id'', JStr ''9fceb02''), (''timestamp'', JStr ''2024-01-01T10:00:00+05:30'')]"
        "JStr ''9fceb02''" "JStr ''2024-01-01T10:00:00+05:30''"
        "JObj [(''name'', JStr ''octocat'')]" "JStr ''octocat''" "''refs/heads/feature/login''"]
  by (simp add: last_segment_def)

section \<open>The store gateway\<close>

lemma store_if_new_eq:
  "store_if_new f d s =
     (if FindOne \<in> f then Inl StoreError
      else if (\<exists>x\<in>set s. request_id x = request_id d) then Inr (AlreadyExists, s)
      else if InsertOne \<in> f then Inl StoreError
      else Inr (Inserted, s @ [d]))"
proof -
  have "(find (\<lambda>e. request_id e = request_id d) s = None) = ((\<forall>x\<in>set s. request_id x \<noteq> request_id d))"
    unfolding find_None_iff by blast
  then show ?thesis
    by (cases "find (\<lambda>e. request_id e = request_id d) s")
       (auto simp: store_if_new_def find_one_def insert_one_def bind_exn_def)
qed

lemma store_if_new_keys:
  "distinct (map request_id s) \<Longrightarrow> distinct (map request_id (snd (catch_all s (store_if_new f d s))))"
  by (auto simp: store_if_new_eq catch_all_def)

lemma handle_push_event_distinct:
  "distinct (map request_id s) \<Longrightarrow> distinct (map request_id (snd (handle_push_event f p s)))"
  by (cases "push_event_doc p")
     (auto simp: handle_push_event_def bind_exn_def store_if_new_eq catch_all_def)

lemma handle_pull_request_event_distinct:
  "distinct (map request_id s) \<Longrightarrow>
   distinct (map request_id (snd (handle_pull_request_event repr f p s)))"
  by (cases "pr_event_doc repr p")
     (auto simp: handle_pull_request_event_def bind_exn_def store_if_new_eq catch_all_def
           split: option.splits)

lemma webhook_distinct:
  "distinct (map request_id s) \<Longrightarrow> distinct (map request_id (snd (webhook repr f t b s)))"
  by (cases b)
     (auto simp: webhook_def handle_push_event_distinct handle_pull_request_event_distinct)

lemma process_all_distinct:
  "distinct (map request_id s) \<Longrightarrow> distinct (map request_id (process_all repr ns s))"
proof (induction ns arbitrary: s)
  case Nil
  then show ?case by simp
next
  case (Cons n ns)
  obtain f t b where n: "n = (f, t, b)" by (cases n)
  show ?case unfolding n process_all.simps
    by (rule Cons.IH) (rule webhook_distinct [OF Cons.prems])
qed

lemma handle_push_event_eq:
  "push_event_doc p = Inr d \<Longrightarrow>
   handle_push_event f p s =
     (if FindOne \<in> f then (Failed StoreError, s)
      else if (\<exists>x\<in>set s. request_id x = request_id d) then (AlreadyExists, s)
      else if InsertOne \<in> f then (Failed StoreError, s)
      else (Inserted, s @ [d]))"
  by (simp add: handle_push_event_def bind_exn_def store_if_new_eq catch_all_def)

lemma handle_pull_request_event_eq:
  "pr_event_doc repr p = Inr (Some d) \<Longrightarrow>
   handle_pull_request_event repr f p s =
     (if FindOne \<in> f then (Failed StoreError, s)
      else if (\<exists>x\<in>set s. request_id x = request_id d) then (AlreadyExists, s)
      else if InsertOne \<in> f then (Failed StoreError, s)
      else (Inserted, s @ [d]))"
  by (simp add: handle_pull_request_event_def bind_exn_def store_if_new_eq catch_all_def)

lemma handle_push_event_twice:
  "snd (handle_push_event {} p (snd (handle_push_event {} p s))) = snd (handle_push_event {} p s)"
  by (cases "push_event_doc p")
     (auto simp: handle_push_event_def bind_exn_def store_if_new_eq catch_all_def)

lemma handle_pull_request_event_twice:
  "snd (handle_pull_request_event repr {} p (snd (handle_pull_request_event repr {} p s)))
     = snd (handle_pull_request_event repr {} p s)"
  by (cases "pr_event_doc repr p")
     (auto simp: handle_pull_request_event_def bind_exn_def store_if_new_eq catch_all_def
           split: option.splits)

lemma webhook_twice:
  "snd (webhook repr {} t b (snd (webhook repr {} t b s))) = snd (webhook repr {} t b s)"
  by (cases b)
     (auto simp: webhook_def handle_push_event_twice handle_pull_request_event_twice)

lemma field_pathD:
  "field_path v a b = Inr x \<Longrightarrow> \<exists>w. subscript v a = Inr w \<and> subscript w b = Inr x"
  by (cases "subscript v a") (auto simp: field_path_def bind_exn_def)

lemma count_key_one:
  "distinct (map f xs) \<Longrightarrow> (\<exists>x\<in>set xs. f x = k) \<Longrightarrow> length (filter (\<lambda>x. f x = k) xs) = 1"
proof (induction xs)
  case Nil
  then show ?case by simp
next
  case (Cons x xs)
  show ?case
  proof (cases "f x = k")
    case True
    with Cons.prems have "\<forall>y\<in>set xs. f y \<noteq> k" by (force simp: image_iff)
    then have "filter (\<lambda>x. f x = k) xs = []" by (simp add: filter_empty_conv)
    with True show ?thesis by simp
  next
    case False
    with Cons show ?thesis by auto
  qed
qed

lemma push_key_after:
  "push_event_doc p = Inr d \<Longrightarrow>
   (\<exists>x\<in>set (snd (handle_push_event {} p s)). request_id x = request_id d)"
  by (simp add: handle_push_event_eq)

lemma push_9fceb02_doc: "push_event_doc push_9fceb02 = Inr doc_9fceb02"
  by (simp add: push_9fceb02_def doc_9fceb02_def push_event_doc_def bind_exn_def index_last_def)

lemma show_123: "show_int 123 = ''123''"
  by code_simp

lemma pr_123_opened_doc: "pr_event_doc repr (pr_123 ''opened'' []) = Inr (Some doc_pr_123)"
  by (simp add: pr_123_def doc_pr_123_def pr_event_doc_def bind_exn_def show_123)

lemma pr_123_merged_doc:
  "pr_event_doc repr (pr_123 ''closed'' [(''merged'', JBool True), (''merged_at'', JStr ''2024-01-02T09:00:00Z'')])
     = Inr (Some (doc_merge_123 (JStr ''2024-01-02T09:00:00Z'')))"
  by (simp add: pr_123_def doc_merge_123_def pr_event_doc_def bind_exn_def show_123)

lemma pr_123_merged_doc_fallback:
  "pr_event_doc repr (pr_123 ''closed'' [(''merged'', JBool True)])
     = Inr (Some (doc_merge_123 (JStr ''2024-01-02T08:00:00Z'')))"
  by (simp add: pr_123_def doc_merge_123_def pr_event_doc_def bind_exn_def show_123)


text \<open>
  C1. Notifications served one after the other never leave two documents with the same
  identity key in the collection: starting from the empty collection, or from any
  collection whose keys are distinct, the keys are distinct after any sequence, whatever
  store calls fail on the way. A push or pull-request notification
  whose derived key is already in the collection leaves the collection as it was. Serving
  the same notification twice gives the same collection as serving it once; for a push
  payload and for a pull-request payload (opened or merged) that yields a document, two
  submissions leave exactly one document with its key, and from the empty collection
  exactly that document.
\<close>

theorem sequential_dedup:
  "distinct (map request_id (process_all repr ns []))
   \<and> (distinct (map request_id s) \<longrightarrow> distinct (map request_id (process_all repr ns s)))
   \<and> (push_event_doc p = Inr d \<and> (\<exists>x\<in>set s. request_id x = request_id d) \<longrightarrow>
        snd (webhook repr f (Some ''push'') (Inr p) s) = s)
   \<and> (pr_event_doc repr q = Inr (Some e) \<and> (\<exists>x\<in>set s. request_id x = request_id e) \<longrightarrow>
        snd (webhook repr f (Some ''pull_request'') (Inr q) s) = s)
   \<and> process_all repr [({}, t, b), ({}, t, b)] s = process_all repr [({}, t, b)] s
   \<and> (push_event_doc p = Inr d \<and> distinct (map request_id s) \<longrightarrow>
        length (filter (\<lambda>x. request_id x = request_id d)
          (process_all repr [({}, Some ''push'', Inr p), ({}, Some ''push'', Inr p)] s)) = 1)
   \<and> (push_event_doc p = Inr d \<longrightarrow>
        process_all repr [({}, Some ''push'', Inr p), ({}, Some ''push'', Inr p)] [] = [d])
   \<and> (pr_event_doc repr q = Inr (Some e) \<and> distinct (map request_id s) \<longrightarrow>
        length (filter (\<lambda>x. request_id x = request_id e)
          (process_all repr [({}, Some ''pull_request'', Inr q),
                             ({}, Some ''pull_request'', Inr q)] s)) = 1)
   \<and> (pr_event_doc repr q = Inr (Some e) \<longrightarrow>
        process_all repr [({}, Some ''pull_request'', Inr q),
                          ({}, Some ''pull_request'', Inr q)] [] = [e])"
proof -
  have a: "distinct (map request_id s) \<longrightarrow> distinct (map request_id (process_all repr ns s))"
    by (simp add: process_all_distinct)
  have a0: "distinct (map request_id (process_all repr ns []))"
    by (simp add: process_all_distinct)
  have b: "push_event_doc p = Inr d \<and> (\<exists>x\<in>set s. request_id x = request_id d) \<longrightarrow>
        snd (webhook repr f (Some ''push'') (Inr p) s) = s"
    by (simp add: webhook_def handle_push_event_eq)
  have c: "pr_event_doc repr q = Inr (Some e) \<and> (\<exists>x\<in>set s. request_id x = request_id e) \<longrightarrow>
        snd (webhook repr f (Some ''pull_request'') (Inr q) s) = s"
    by (simp add: webhook_def handle_pull_request_event_eq)
  have d: "process_all repr [({}, t, b), ({}, t, b)] s = process_all repr [({}, t, b)] s"
    by (simp add: webhook_twice)
  have e: "push_event_doc p = Inr d \<and> distinct (map request_id s) \<longrightarrow>
        length (filter (\<lambda>x. request_id x = request_id d)
          (process_all repr [({}, Some ''push'', Inr p), ({}, Some ''push'', Inr p)] s)) = 1"
  proof
    assume h: "push_event_doc p = Inr d \<and> distinct (map request_id s)"
    let ?s1 = "snd (handle_push_event {} p s)"
    have eq: "process_all repr [({}, Some ''push'', Inr p), ({}, Some ''push'', Inr p)] s = ?s1"
      by (simp add: webhook_def handle_push_event_twice)
    have "distinct (map request_id ?s1)"
      using h by (simp add: handle_push_event_distinct)
    moreover have "(\<exists>x\<in>set ?s1. request_id x = request_id d)"
      using h by (simp add: push_key_after)
    ultimately show "length (filter (\<lambda>x. request_id x = request_id d)
          (process_all repr [({}, Some ''push'', Inr p), ({}, Some ''push'', Inr p)] s)) = 1"
      unfolding eq by (rule count_key_one)
  qed
  have g: "push_event_doc p = Inr d \<longrightarrow>
        process_all repr [({}, Some ''push'', Inr p), ({}, Some ''push'', Inr p)] [] = [d]"
    by (simp add: webhook_def handle_push_event_eq)
  have h: "pr_event_doc repr q = Inr (Some e) \<and> distinct (map request_id s) \<longrightarrow>
        length (filter (\<lambda>x. request_id x = request_id e)
          (process_all repr [({}, Some ''pull_request'', Inr q),
                             ({}, Some ''pull_request'', Inr q)] s)) = 1"
  proof
    assume hyp: "pr_event_doc repr q = Inr (Some e) \<and> distinct (map request_id s)"
    let ?s1 = "snd (handle_pull_request_event repr {} q s)"
    have eq: "process_all repr [({}, Some ''pull_request'', Inr q),
                                ({}, Some ''pull_request'', Inr q)] s = ?s1"
      by (simp add: webhook_def handle_pull_request_event_twice)
    have "distinct (map request_id ?s1)"
      using hyp by (simp add: handle_pull_request_event_distinct)
    moreover have "\<exists>x\<in>set ?s1. request_id x = request_id e"
      using hyp by (simp add: handle_pull_request_event_eq)
    ultimately show "length (filter (\<lambda>x. request_id x = request_id e)
          (process_all repr [({}, Some ''pull_request'', Inr q),
                             ({}, Some ''pull_request'', Inr q)] s)) = 1"
      unfolding eq by (rule count_key_one)
  qed
  have i: "pr_event_doc repr q = Inr (Some e) \<longrightarrow>
        process_all repr [({}, Some ''pull_request'', Inr q),
                          ({}, Some ''pull_request'', Inr q)] [] = [e]"
    by (simp add: webhook_def handle_pull_request_event_eq)
  from a0 a b c d e g h i show ?thesis by blast
qed

theorem sequential_dedup_witness:
  "distinct (map request_id [doc_pr_123])
   \<and> distinct (map request_id
        (process_all plain_repr
           [({}, Some ''push'', Inr push_9fceb02), ({InsertOne}, Some ''pull_request'', Inr (pr_123 ''opened'' [])),
            ({}, Some ''push'', Inr push_9fceb02)] [doc_pr_123]))
   \<and> snd (webhook plain_repr {} (Some ''push'') (Inr push_9fceb02) [doc_pr_123, doc_9fceb02])
        = [doc_pr_123, doc_9fceb02]
   \<and> snd (webhook plain_repr {} (Some ''pull_request'') (Inr (pr_123 ''opened'' []))
            [doc_pr_123, doc_9fceb02])
        = [doc_pr_123, doc_9fceb02]
   \<and> length (filter (\<lambda>x. request_id x = request_id doc_9fceb02)
        (process_all plain_repr
           [({}, Some ''push'', Inr push_9fceb02), ({}, Some ''push'', Inr push_9fceb02)]
           [doc_pr_123])) = 1
   \<and> process_all plain_repr
        [({}, Some ''push'', Inr push_9fceb02), ({}, Some ''push'', Inr push_9fceb02)] []
        = [doc_9fceb02]
   \<and> length (filter (\<lambda>x. request_id x = request_id doc_pr_123)
        (process_all plain_repr
           [({}, Some ''pull_request'', Inr (pr_123 ''opened'' [])),
            ({}, Some ''pull_request'', Inr (pr_123 ''opened'' []))]
           [doc_9fceb02])) = 1
   \<and> process_all plain_repr
        [({}, Some ''pull_request'', Inr (pr_123 ''opened'' [])),
         ({}, Some ''pull_request'', Inr (pr_123 ''opened'' []))] []
        = [doc_pr_123]
   \<and> process_all plain_repr
        [({}, Some ''pull_request'', Inr (pr_123 ''closed'' [(''merged'', JBool True)])),
         ({}, Some ''pull_request'', Inr (pr_123 ''closed'' [(''merged'', JBool True)]))] []
        = [doc_merge_123 (JStr ''2024-01-02T08:00:00Z'')]"
proof -
  have k1: "\<exists>x\<in>set [doc_pr_123, doc_9fceb02]. request_id x = request_id doc_9fceb02"
    by simp
  have k2: "\<exists>x\<in>set [doc_pr_123, doc_9fceb02]. request_id x = request_id doc_pr_123"
    by simp
  have dist: "distinct (map request_id [doc_pr_123])"
    by simp
  note a = sequential_dedup
    [where s = "[doc_pr_123]" and repr = plain_repr
       and ns = "[({}, Some ''push'', Inr push_9fceb02),
                  ({InsertOne}, Some ''pull_request'', Inr (pr_123 ''opened'' [])),
                  ({}, Some ''push'', Inr push_9fceb02)]"
       and p = push_9fceb02 and d = doc_9fceb02 and f = "{}"
       and q = "pr_123 ''opened'' []" and e = doc_pr_123]
  note b = sequential_dedup
    [where s = "[doc_pr_123, doc_9fceb02]" and repr = plain_repr and ns = "[]"
       and p = push_9fceb02 and d = doc_9fceb02 and f = "{}"
       and q = "pr_123 ''opened'' []" and e = doc_pr_123]
  note c = sequential_dedup
    [where s = "[doc_9fceb02]" and repr = plain_repr and ns = "[]"
       and p = push_9fceb02 and d = doc_9fceb02 and f = "{}"
       and q = "pr_123 ''opened'' []" and e = doc_pr_123]
  note m = sequential_dedup
    [where s = "[]" and repr = plain_repr and ns = "[]"
       and p = push_9fceb02 and d = doc_9fceb02 and f = "{}"
       and q = "pr_123 ''closed'' [(''merged'', JBool True)]"
       and e = "doc_merge_123 (JStr ''2024-01-02T08:00:00Z'')"]
  have dist2: "distinct (map request_id [doc_9fceb02])"
    by simp
  show ?thesis
    using a b c m k1 k2 dist dist2 push_9fceb02_doc pr_123_opened_doc [of plain_repr]
      pr_123_merged_doc_fallback [of plain_repr]
    by blast
qed


text \<open>
  C10. The duplicate check looks at the key alone, and the key of a push is
  \<open>head_commit.id\<close> as it stands: when any stored document, of whatever action, has a key
  equal to the \<open>head_commit.id\<close> of a push, the push is not stored, the handler reports
  the duplicate (unless the lookup itself fails) and the endpoint answers success. So a
  push whose commit id is the string \<open>pr_123\<close>, arriving after pull request 123 was
  opened, is dropped.
\<close>

theorem push_key_collision:
  assumes "subscript p ''head_commit'' = Inr hc"
    and "subscript hc ''id'' = Inr k"
    and "push_event_doc p = Inr d"
    and "e \<in> set s"
    and "request_id e = k"
  shows "request_id d = k
         \<and> snd (handle_push_event f p s) = s
         \<and> fst (handle_push_event f p s) \<noteq> Inserted
         \<and> (FindOne \<notin> f \<longrightarrow> fst (handle_push_event f p s) = AlreadyExists)
         \<and> webhook repr f (Some ''push'') (Inr p) s = (Response 200 ''success'', s)"
proof -
  have k: "request_id d = k"
    using assms(1,2,3)
    by (auto simp: push_event_doc_def bind_exn_def split: sum.splits)
  then have "(\<exists>x\<in>set s. request_id x = request_id d)"
    using assms(4,5) by blast
  then show ?thesis
    using k assms(3) by (simp add: handle_push_event_eq webhook_def)
qed

theorem push_key_collision_witness:
  "push_event_doc
     (JObj [(''ref'', JStr ''main''),
            (''pusher'', JObj [(''name'', JStr ''octocat'')]),
            (''head_commit'', JObj [(''id'', JStr ''pr_123''), (''timestamp'', JStr ''2024-03-01T00:00:00Z'')])])
     = Inr \<lparr> request_id = JStr ''pr_123'', author = JStr ''octocat'', action = ''PUSH'',
              from_branch = JNull, to_branch = JStr ''main'',
              timestamp = JStr ''2024-03-01T00:00:00Z'' \<rparr>
   \<and> process_all plain_repr [({}, Some ''pull_request'', Inr (pr_123 ''opened'' []))] [] = [doc_pr_123]
   \<and> handle_push_event {}
        (JObj [(''ref'', JStr ''main''),
               (''pusher'', JObj [(''name'', JStr ''octocat'')]),
               (''head_commit'', JObj [(''id'', JStr ''pr_123''), (''timestamp'', JStr ''2024-03-01T00:00:00Z'')])])
        [doc_pr_123] = (AlreadyExists, [doc_pr_123])"
proof -
  let ?p = "JObj [(''ref'', JStr ''main''),
            (''pusher'', JObj [(''name'', JStr ''octocat'')]),
            (''head_commit'', JObj [(''id'', JStr ''pr_123''), (''timestamp'', JStr ''2024-03-01T00:00:00Z'')])]"
  let ?d = "\<lparr> request_id = JStr ''pr_123'', author = JStr ''octocat'', action = ''PUSH'',
              from_branch = JNull, to_branch = JStr ''main'',
              timestamp = JStr ''2024-03-01T00:00:00Z'' \<rparr>"
  have d: "push_event_doc ?p = Inr ?d"
    by (simp add: push_event_doc_def bind_exn_def index_last_def)
  have s: "process_all plain_repr [({}, Some ''pull_request'', Inr (pr_123 ''opened'' []))] [] = [doc_pr_123]"
    by (simp add: webhook_def handle_pull_request_event_eq [OF pr_123_opened_doc])
  have c: "fst (handle_push_event {} ?p [doc_pr_123]) = AlreadyExists
           \<and> snd (handle_push_event {} ?p [doc_pr_123]) = [doc_pr_123]"
    using push_key_collision
      [of ?p "JObj [(''id'', JStr ''pr_123''), (''timestamp'', JStr ''2024-03-01T00:00:00Z'')]"
          "JStr ''pr_123''" ?d doc_pr_123 "[doc_pr_123]" "{}" plain_repr] d
    by (simp add: doc_pr_123_def)
  then have "handle_push_event {} ?p [doc_pr_123] = (AlreadyExists, [doc_pr_123])"
    by (simp add: prod_eq_iff)
  with d s show ?thesis by simp
qed

section \<open>The pull-request normalizers\<close>

lemma pr_event_doc_opened:
  assumes "subscript po ''action'' = Inr (JStr ''opened'')"
    and "subscript po ''pull_request'' = Inr pr"
    and "subscript pr ''id'' = Inr idv"
    and "field_path pr ''user'' ''login'' = Inr a"
    and "field_path pr ''head'' ''ref'' = Inr fb"
    and "field_path pr ''base'' ''ref'' = Inr tb"
    and "subscript pr ''created_at'' = Inr ts"
  shows "pr_event_doc repr po =
           Inr (Some \<lparr> request_id = JStr (''pr_'' @ py_str repr idv), author = a,
                       action = ''PULL_REQUEST'', from_branch = fb, to_branch = tb,
                       timestamp = ts \<rparr>)"
proof -
  obtain u where u: "subscript pr ''user'' = Inr u" "subscript u ''login'' = Inr a"
    using field_pathD [OF assms(4)] by blast
  obtain h where h: "subscript pr ''head'' = Inr h" "subscript h ''ref'' = Inr fb"
    using field_pathD [OF assms(5)] by blast
  obtain b where b: "subscript pr ''base'' = Inr b" "subscript b ''ref'' = Inr tb"
    using field_pathD [OF assms(6)] by blast
  show ?thesis
    using assms(1,2,3,7) u h b by (simp add: pr_event_doc_def bind_exn_def)
qed

lemma pr_event_doc_merged:
  assumes "subscript pm ''action'' = Inr (JStr ''closed'')"
    and "subscript pm ''pull_request'' = Inr pr"
    and "subscript pr ''id'' = Inr idv"
    and "field_path pr ''user'' ''login'' = Inr a"
    and "field_path pr ''head'' ''ref'' = Inr fb"
    and "field_path pr ''base'' ''ref'' = Inr tb"
    and "subscript pr ''updated_at'' = Inr upd"
    and "dict_get pr ''merged'' (JBool False) = Inr m"
    and "truthy m"
  shows "\<exists>ts. dict_get pr ''merged_at'' upd = Inr ts \<and>
           pr_event_doc repr pm =
             Inr (Some \<lparr> request_id = JStr (''merge_'' @ py_str repr idv), author = a,
                         action = ''MERGE'', from_branch = fb, to_branch = tb,
                         timestamp = ts \<rparr>)"
proof -
  obtain u where u: "subscript pr ''user'' = Inr u" "subscript u ''login'' = Inr a"
    using field_pathD [OF assms(4)] by blast
  obtain h where h: "subscript pr ''head'' = Inr h" "subscript h ''ref'' = Inr fb"
    using field_pathD [OF assms(5)] by blast
  obtain b where b: "subscript pr ''base'' = Inr b" "subscript b ''ref'' = Inr tb"
    using field_pathD [OF assms(6)] by blast
  obtain kvs where pr: "pr = JObj kvs"
    using assms(3) by (cases pr) auto
  then obtain ts where ts: "dict_get pr ''merged_at'' upd = Inr ts"
    by simp
  show ?thesis
    using assms(1,2,3,7,8,9) u h b ts by (simp add: pr_event_doc_def bind_exn_def)
qed


text \<open>
  C3. For a pull request with the integer id \<open>n\<close>, the opened notification yields a
  document with key \<open>pr_n\<close> and action PULL_REQUEST, the merged notification (action
  closed, \<open>merged\<close> true) one with key \<open>merge_n\<close> and action MERGE; both take the author
  from \<open>user.login\<close>, the source branch from \<open>head.ref\<close> and the target branch from
  \<open>base.ref\<close>. The keys differ, so serving both, in either order, on a collection that
  has neither key adds the two documents.
\<close>

theorem pull_request_and_merge_keys:
  assumes "subscript po ''action'' = Inr (JStr ''opened'')"
    and "subscript po ''pull_request'' = Inr pro"
    and "subscript pro ''id'' = Inr (JInt n)"
    and "field_path pro ''user'' ''login'' = Inr a1"
    and "field_path pro ''head'' ''ref'' = Inr f1"
    and "field_path pro ''base'' ''ref'' = Inr b1"
    and "subscript pro ''created_at'' = Inr t1"
    and "subscript pm ''action'' = Inr (JStr ''closed'')"
    and "subscript pm ''pull_request'' = Inr prm"
    and "subscript prm ''id'' = Inr (JInt n)"
    and "field_path prm ''user'' ''login'' = Inr a2"
    and "field_path prm ''head'' ''ref'' = Inr f2"
    and "field_path prm ''base'' ''ref'' = Inr b2"
    and "subscript prm ''updated_at'' = Inr t2"
    and "dict_get prm ''merged'' (JBool False) = Inr m"
    and "truthy m"
    and "\<forall>x\<in>set s. request_id x \<noteq> JStr (''pr_'' @ show_int n)
                   \<and> request_id x \<noteq> JStr (''merge_'' @ show_int n)"
  shows "\<exists>dO dM.
           pr_event_doc repr po = Inr (Some dO) \<and> pr_event_doc repr pm = Inr (Some dM)
         \<and> request_id dO = JStr (''pr_'' @ show_int n) \<and> action dO = ''PULL_REQUEST''
         \<and> author dO = a1 \<and> from_branch dO = f1 \<and> to_branch dO = b1
         \<and> request_id dM = JStr (''merge_'' @ show_int n) \<and> action dM = ''MERGE''
         \<and> author dM = a2 \<and> from_branch dM = f2 \<and> to_branch dM = b2
         \<and> request_id dO \<noteq> request_id dM
         \<and> process_all repr [({}, Some ''pull_request'', Inr po),
                              ({}, Some ''pull_request'', Inr pm)] s = s @ [dO, dM]
         \<and> process_all repr [({}, Some ''pull_request'', Inr pm),
                              ({}, Some ''pull_request'', Inr po)] s = s @ [dM, dO]"
proof -
  define dO where "dO = \<lparr> request_id = JStr (''pr_'' @ show_int n), author = a1,
               action = ''PULL_REQUEST'', from_branch = f1, to_branch = b1, timestamp = t1 \<rparr>"
  have o: "pr_event_doc repr po = Inr (Some dO)"
    using pr_event_doc_opened [OF assms(1-7), of repr] by (simp add: dO_def)
  obtain ts where m0: "pr_event_doc repr pm =
       Inr (Some \<lparr> request_id = JStr (''merge_'' @ py_str repr (JInt n)), author = a2,
                   action = ''MERGE'', from_branch = f2, to_branch = b2, timestamp = ts \<rparr>)"
    using pr_event_doc_merged [OF assms(8-16), of repr] by blast
  define dM where "dM = \<lparr> request_id = JStr (''merge_'' @ show_int n), author = a2,
               action = ''MERGE'', from_branch = f2, to_branch = b2, timestamp = ts \<rparr>"
  have m: "pr_event_doc repr pm = Inr (Some dM)"
    using m0 by (simp add: dM_def)
  have fields: "request_id dO = JStr (''pr_'' @ show_int n)" "action dO = ''PULL_REQUEST''"
      "author dO = a1" "from_branch dO = f1" "to_branch dO = b1"
      "request_id dM = JStr (''merge_'' @ show_int n)" "action dM = ''MERGE''"
      "author dM = a2" "from_branch dM = f2" "to_branch dM = b2"
    by (simp_all add: dO_def dM_def)
  have ne: "request_id dO \<noteq> request_id dM"
    by (simp add: dO_def dM_def)
  have fresh: "\<not> (\<exists>x\<in>set s. request_id x = request_id dO)"
              "\<not> (\<exists>x\<in>set s. request_id x = request_id dM)"
    using assms(17) by (auto simp: dO_def dM_def)
  have s1: "handle_pull_request_event repr {} po s = (Inserted, s @ [dO])"
    using fresh(1) by (simp add: handle_pull_request_event_eq [OF o])
  have s2: "handle_pull_request_event repr {} pm (s @ [dO]) = (Inserted, s @ [dO, dM])"
    using fresh(2) ne by (simp add: handle_pull_request_event_eq [OF m])
  have s3: "handle_pull_request_event repr {} pm s = (Inserted, s @ [dM])"
    using fresh(2) by (simp add: handle_pull_request_event_eq [OF m])
  have s4: "handle_pull_request_event repr {} po (s @ [dM]) = (Inserted, s @ [dM, dO])"
    using fresh(1) ne by (simp add: handle_pull_request_event_eq [OF o])
  have p1: "process_all repr [({}, Some ''pull_request'', Inr po),
                              ({}, Some ''pull_request'', Inr pm)] s = s @ [dO, dM]"
    by (simp add: webhook_def s1 s2)
  have p2: "process_all repr [({}, Some ''pull_request'', Inr pm),
                              ({}, Some ''pull_request'', Inr po)] s = s @ [dM, dO]"
    by (simp add: webhook_def s3 s4)
  from o m fields ne p1 p2 show ?thesis by blast
qed


theorem pull_request_and_merge_keys_witness:
  "process_all plain_repr
     [({}, Some ''pull_request'', Inr (pr_123 ''opened'' [])),
      ({}, Some ''pull_request'',
         Inr (pr_123 ''closed'' [(''merged'', JBool True), (''merged_at'', JStr ''2024-01-02T09:00:00Z'')]))]
     []
   = [doc_pr_123, doc_merge_123 (JStr ''2024-01-02T09:00:00Z'')]"
proof -
  let ?po = "pr_123 ''opened'' []"
  let ?pm = "pr_123 ''closed'' [(''merged'', JBool True), (''merged_at'', JStr ''2024-01-02T09:00:00Z'')]"
  let ?pro = "JObj [(''id'', JInt 123),
                     (''user'', JObj [(''login'', JStr ''hubot'')]),
                     (''head'', JObj [(''ref'', JStr ''feature'')]),
                     (''base'', JObj [(''ref'', JStr ''main'')]),
                     (''created_at'', JStr ''2024-01-01T20:00:00Z''),
                     (''updated_at'', JStr ''2024-01-02T08:00:00Z'')]"
  let ?prm = "JObj [(''id'', JInt 123),
                     (''user'', JObj [(''login'', JStr ''hubot'')]),
                     (''head'', JObj [(''ref'', JStr ''feature'')]),
                     (''base'', JObj [(''ref'', JStr ''main'')]),
                     (''created_at'', JStr ''2024-01-01T20:00:00Z''),
                     (''updated_at'', JStr ''2024-01-02T08:00:00Z''),
                     (''merged'', JBool True), (''merged_at'', JStr ''2024-01-02T09:00:00Z'')]"
  have "\<exists>dO dM.
           pr_event_doc plain_repr ?po = Inr (Some dO) \<and> pr_event_doc plain_repr ?pm = Inr (Some dM)
         \<and> process_all plain_repr [({}, Some ''pull_request'', Inr ?po),
                              ({}, Some ''pull_request'', Inr ?pm)] [] = [] @ [dO, dM]"
    using pull_request_and_merge_keys
      [of ?po ?pro 123 "JStr ''hubot''" "JStr ''feature''" "JStr ''main''"
          "JStr ''2024-01-01T20:00:00Z''" ?pm ?prm "JStr ''hubot''" "JStr ''feature''"
          "JStr ''main''" "JStr ''2024-01-02T08:00:00Z''" "JBool True" "[]" plain_repr]
    by (simp add: pr_123_def field_path_def bind_exn_def) blast
  then show ?thesis
    by (auto simp: pr_123_opened_doc pr_123_merged_doc)
qed


text \<open>
  C4. When a merge notification (action closed, \<open>merged\<close> true) gets a document stored,
  the timestamp of that document is the value of \<open>merged_at\<close> when the pull request has
  that field, and the value of \<open>updated_at\<close> when it has not.
\<close>

theorem merge_timestamp:
  assumes "subscript p ''action'' = Inr (JStr ''closed'')"
    and "subscript p ''pull_request'' = Inr pr"
    and "dict_get pr ''merged'' (JBool False) = Inr m"
    and "truthy m"
    and "handle_pull_request_event repr f p s = (Inserted, s')"
  shows "\<exists>d. s' = s @ [d] \<and> pr_event_doc repr p = Inr (Some d) \<and> action d = ''MERGE''
           \<and> (\<forall>v. subscript pr ''merged_at'' = Inr v \<longrightarrow> timestamp d = v)
           \<and> (subscript pr ''merged_at'' = Inl KeyError \<longrightarrow>
                subscript pr ''updated_at'' = Inr (timestamp d))"
proof -
  obtain d where d: "pr_event_doc repr p = Inr (Some d)"
    using assms(5)
    by (cases "pr_event_doc repr p")
       (auto simp: handle_pull_request_event_def bind_exn_def catch_all_def split: option.splits)
  have s': "s' = s @ [d]"
    using assms(5) by (auto simp: handle_pull_request_event_eq [OF d] split: if_splits)
  obtain kvs where pr: "pr = JObj kvs"
    using assms(3) by (cases pr) auto
  have "action d = ''MERGE''
        \<and> (\<forall>v. subscript pr ''merged_at'' = Inr v \<longrightarrow> timestamp d = v)
        \<and> (subscript pr ''merged_at'' = Inl KeyError \<longrightarrow>
              subscript pr ''updated_at'' = Inr (timestamp d))"
    using d assms(1,2,3,4) unfolding pr
    by (auto simp: pr_event_doc_def bind_exn_def split: sum.splits option.splits if_splits)
  with s' d show ?thesis by blast
qed

theorem merge_timestamp_witness:
  "handle_pull_request_event plain_repr {}
     (pr_123 ''closed'' [(''merged'', JBool True), (''merged_at'', JStr ''2024-01-02T09:00:00Z'')]) []
     = (Inserted, [doc_merge_123 (JStr ''2024-01-02T09:00:00Z'')])
   \<and> timestamp (doc_merge_123 (JStr ''2024-01-02T09:00:00Z'')) = JStr ''2024-01-02T09:00:00Z''
   \<and> handle_pull_request_event plain_repr {} (pr_123 ''closed'' [(''merged'', JBool True)]) []
     = (Inserted, [doc_merge_123 (JStr ''2024-01-02T08:00:00Z'')])
   \<and> timestamp (doc_merge_123 (JStr ''2024-01-02T08:00:00Z'')) = JStr ''2024-01-02T08:00:00Z''"
proof -
  let ?p1 = "pr_123 ''closed'' [(''merged'', JBool True), (''merged_at'', JStr ''2024-01-02T09:00:00Z'')]"
  let ?p2 = "pr_123 ''closed'' [(''merged'', JBool True)]"
  let ?pr = "JObj [(''id'', JInt 123),
                     (''user'', JObj [(''login'', JStr ''hubot'')]),
                     (''head'', JObj [(''ref'', JStr ''feature'')]),
                     (''base'', JObj [(''ref'', JStr ''main'')]),
                     (''created_at'', JStr ''2024-01-01T20:00:00Z''),
                     (''updated_at'', JStr ''2024-01-02T08:00:00Z'')]"
  have h1: "handle_pull_request_event plain_repr {} ?p1 []
              = (Inserted, [doc_merge_123 (JStr ''2024-01-02T09:00:00Z'')])"
    by (simp add: handle_pull_request_event_eq [OF pr_123_merged_doc])
  have h2: "handle_pull_request_event plain_repr {} ?p2 []
              = (Inserted, [doc_merge_123 (JStr ''2024-01-02T08:00:00Z'')])"
    by (simp add: handle_pull_request_event_eq [OF pr_123_merged_doc_fallback])
  have t1: "timestamp (doc_merge_123 (JStr ''2024-01-02T09:00:00Z'')) = JStr ''2024-01-02T09:00:00Z''"
    using merge_timestamp
      [of ?p1 "JObj [(''id'', JInt 123),
                     (''user'', JObj [(''login'', JStr ''hubot'')]),
                     (''head'', JObj [(''ref'', JStr ''feature'')]),
                     (''base'', JObj [(''ref'', JStr ''main'')]),
                     (''created_at'', JStr ''2024-01-01T20:00:00Z''),
                     (''updated_at'', JStr ''2024-01-02T08:00:00Z''),
                     (''merged'', JBool True), (''merged_at'', JStr ''2024-01-02T09:00:00Z'')]"
          "JBool True" plain_repr "{}" "[]" "[doc_merge_123 (JStr ''2024-01-02T09:00:00Z'')]"] h1
    by (simp add: pr_123_def)
  have t2: "timestamp (doc_merge_123 (JStr ''2024-01-02T08:00:00Z'')) = JStr ''2024-01-02T08:00:00Z''"
    using merge_timestamp
      [of ?p2 "JObj [(''id'', JInt 123),
                     (''user'', JObj [(''login'', JStr ''hubot'')]),
                     (''head'', JObj [(''ref'', JStr ''feature'')]),
                     (''base'', JObj [(''ref'', JStr ''main'')]),
                     (''created_at'', JStr ''2024-01-01T20:00:00Z''),
                     (''updated_at'', JStr ''2024-01-02T08:00:00Z''),
                     (''merged'', JBool True)]"
          "JBool True" plain_repr "{}" "[]" "[doc_merge_123 (JStr ''2024-01-02T08:00:00Z'')]"] h2
    by (simp add: pr_123_def)
  from h1 h2 t1 t2 show ?thesis by blast
qed

section \<open>The endpoint\<close>

lemma pr_event_doc_action:
  assumes "pr_event_doc repr p = Inr r"
  shows "(subscript p ''action'' = Inr (JStr ''opened'') \<longrightarrow>
            (\<exists>d. r = Some d \<and> action d = ''PULL_REQUEST''))
       \<and> (subscript p ''action'' = Inr (JStr ''closed'') \<and> merged_truthy p \<longrightarrow>
            (\<exists>d. r = Some d \<and> action d = ''MERGE''))
       \<and> (subscript p ''action'' \<noteq> Inr (JStr ''opened'')
          \<and> \<not> (subscript p ''action'' = Inr (JStr ''closed'') \<and> merged_truthy p) \<longrightarrow> r = None)"
  using assms
  by (auto simp: pr_event_doc_def bind_exn_def merged_truthy_def
           split: sum.splits if_splits)

lemma merged_tests_agree:
  assumes "\<forall>v. field_path p ''pull_request'' ''merged'' = Inr v \<longrightarrow> v = JBool True \<or> v = JBool False"
  shows "merged_truthy p = merged_true p"
proof (cases "subscript p ''pull_request''")
  case (Inl e)
  then show ?thesis by (simp add: merged_truthy_def merged_true_def field_path_def bind_exn_def)
next
  case (Inr pr)
  show ?thesis
  proof (cases pr)
    case (JObj kvs)
    show ?thesis
    proof (cases "map_of kvs ''merged''")
      case None
      with Inr JObj show ?thesis
        by (simp add: merged_truthy_def merged_true_def field_path_def bind_exn_def)
    next
      case (Some v)
      with Inr JObj have "field_path p ''pull_request'' ''merged'' = Inr v"
        by (simp add: field_path_def bind_exn_def)
      with assms have "v = JBool True \<or> v = JBool False" by blast
      with Inr JObj Some show ?thesis
        by (auto simp: merged_truthy_def merged_true_def field_path_def bind_exn_def)
    qed
  qed (use Inr in \<open>simp_all add: merged_truthy_def merged_true_def field_path_def bind_exn_def\<close>)
qed

lemma pr_123_merged_string_doc:
  "pr_event_doc repr (pr_123 ''closed'' [(''merged'', JStr ''false'')])
     = Inr (Some (doc_merge_123 (JStr ''2024-01-02T08:00:00Z'')))"
  by (simp add: pr_123_def doc_merge_123_def pr_event_doc_def bind_exn_def show_123)

lemma handle_pull_request_event_ignored:
  "pr_event_doc repr p = Inr None \<Longrightarrow> handle_pull_request_event repr f p s = (Ignored, s)"
  by (simp add: handle_pull_request_event_def bind_exn_def catch_all_def)

lemma handle_pull_request_event_failed:
  "pr_event_doc repr p = Inl e \<Longrightarrow> handle_pull_request_event repr f p s = (Failed e, s)"
  by (simp add: handle_pull_request_event_def bind_exn_def catch_all_def)

lemma handle_push_event_failed:
  "push_event_doc p = Inl e \<Longrightarrow> handle_push_event f p s = (Failed e, s)"
  by (simp add: handle_push_event_def bind_exn_def catch_all_def)


text \<open>
  C5 as claimed fails: a pull-request notification with action \<open>closed\<close> whose \<open>merged\<close>
  field is the string \<open>false\<close> is not a Merge for the classifier of the specification,
  which asks for a boolean that is true, so it should be ignored; the handler tests the
  truth of the value, takes the non-empty string for true and stores a MERGE record.
\<close>

theorem merged_string_counterexample:
  "classify (Some ''pull_request'') (pr_123 ''closed'' [(''merged'', JStr ''false'')]) = Unhandled
   \<and> webhook plain_repr {} (Some ''pull_request'')
        (Inr (pr_123 ''closed'' [(''merged'', JStr ''false'')])) []
       = (Response 200 ''success'', [doc_merge_123 (JStr ''2024-01-02T08:00:00Z'')])"
proof -
  have a: "classify (Some ''pull_request'') (pr_123 ''closed'' [(''merged'', JStr ''false'')])
             = Unhandled"
    by (simp add: classify_def classify_with_def merged_true_def field_path_def bind_exn_def
          pr_123_def)
  have b: "webhook plain_repr {} (Some ''pull_request'')
        (Inr (pr_123 ''closed'' [(''merged'', JStr ''false'')])) []
       = (Response 200 ''success'', [doc_merge_123 (JStr ''2024-01-02T08:00:00Z'')])"
    by (simp add: webhook_def handle_pull_request_event_eq [OF pr_123_merged_string_doc])
  from a b show ?thesis by blast
qed

text \<open>
  C5 amended. With \<open>merged\<close> true read as the handler tests it (the value counts as
  true unless it is null, false, zero or empty; absent counts as false), the endpoint
  treats a notification as the classifier says. Kind tag \<open>push\<close>: the push handler runs,
  and a push that yields a document whose key is new gets it stored. Kind tag
  \<open>pull_request\<close> with action \<open>opened\<close>: the pull-request handler runs, never takes the
  ignoring branch, derives only PULL_REQUEST documents, and when the fields of the pull
  request can be read and the key \<open>pr_id\<close> is new, that document is stored; with action
  \<open>closed\<close> and \<open>merged\<close> true the same holds with MERGE and the key \<open>merge_id\<close>. Any
  other action combination derives no document and leaves the collection as it was. Any
  other kind tag, an absent one included, is unhandled: the collection is as it was. In
  every case the answer is the success response. When \<open>merged\<close> is absent or a boolean,
  this classifier is the classifier of the specification.
\<close>

theorem webhook_classification:
  "(classify_truthy t p = Push \<longrightarrow>
      webhook repr f t (Inr p) s = (Response 200 ''success'', snd (handle_push_event f p s)))
   \<and> (classify_truthy t p = Push \<and> push_event_doc p = Inr d
        \<and> (\<forall>x\<in>set s. request_id x \<noteq> request_id d) \<longrightarrow>
      webhook repr {} t (Inr p) s = (Response 200 ''success'', s @ [d]))
   \<and> (classify_truthy t p = PullRequestOpened \<longrightarrow>
        webhook repr f t (Inr p) s
          = (Response 200 ''success'', snd (handle_pull_request_event repr f p s))
        \<and> pr_event_doc repr p \<noteq> Inr None
        \<and> (\<forall>d. pr_event_doc repr p = Inr (Some d) \<longrightarrow> action d = ''PULL_REQUEST''))
   \<and> (classify_truthy t p = PullRequestOpened
        \<and> subscript p ''pull_request'' = Inr pr \<and> pr_fields pr idv a fb tb
        \<and> subscript pr ''created_at'' = Inr ts
        \<and> (\<forall>x\<in>set s. request_id x \<noteq> JStr (''pr_'' @ py_str repr idv)) \<longrightarrow>
      webhook repr {} t (Inr p) s
        = (Response 200 ''success'',
           s @ [\<lparr> request_id = JStr (''pr_'' @ py_str repr idv), author = a,
                   action = ''PULL_REQUEST'', from_branch = fb, to_branch = tb,
                   timestamp = ts \<rparr>]))
   \<and> (classify_truthy t p = Merge \<longrightarrow>
        webhook repr f t (Inr p) s
          = (Response 200 ''success'', snd (handle_pull_request_event repr f p s))
        \<and> pr_event_doc repr p \<noteq> Inr None
        \<and> (\<forall>d. pr_event_doc repr p = Inr (Some d) \<longrightarrow> action d = ''MERGE''))
   \<and> (classify_truthy t p = Merge
        \<and> subscript p ''pull_request'' = Inr pr \<and> pr_fields pr idv a fb tb
        \<and> subscript pr ''updated_at'' = Inr upd \<and> dict_get pr ''merged_at'' upd = Inr ts
        \<and> (\<forall>x\<in>set s. request_id x \<noteq> JStr (''merge_'' @ py_str repr idv)) \<longrightarrow>
      webhook repr {} t (Inr p) s
        = (Response 200 ''success'',
           s @ [\<lparr> request_id = JStr (''merge_'' @ py_str repr idv), author = a,
                   action = ''MERGE'', from_branch = fb, to_branch = tb, timestamp = ts \<rparr>]))
   \<and> (classify_truthy t p = Unhandled \<longrightarrow>
        webhook repr f t (Inr p) s = (Response 200 ''success'', s)
        \<and> (t = Some ''pull_request'' \<longrightarrow> (\<forall>d. pr_event_doc repr p \<noteq> Inr (Some d))))
   \<and> (t \<noteq> Some ''push'' \<and> t \<noteq> Some ''pull_request'' \<longrightarrow> classify_truthy t p = Unhandled)
   \<and> classify_truthy None p = Unhandled
   \<and> ((\<forall>v. field_path p ''pull_request'' ''merged'' = Inr v \<longrightarrow> v = JBool True \<or> v = JBool False)
        \<longrightarrow> classify_truthy t p = classify t p)"
proof -
  note cdefs = classify_truthy_def classify_with_def
  have push: "classify_truthy t p = Push \<longrightarrow>
      webhook repr f t (Inr p) s = (Response 200 ''success'', snd (handle_push_event f p s))"
    by (auto simp: cdefs webhook_def split: if_splits)
  have push_stored: "classify_truthy t p = Push \<and> push_event_doc p = Inr d
        \<and> (\<forall>x\<in>set s. request_id x \<noteq> request_id d) \<longrightarrow>
      webhook repr {} t (Inr p) s = (Response 200 ''success'', s @ [d])"
  proof
    assume h: "classify_truthy t p = Push \<and> push_event_doc p = Inr d
        \<and> (\<forall>x\<in>set s. request_id x \<noteq> request_id d)"
    then have t: "t = Some ''push''"
      by (auto simp: cdefs split: if_splits)
    from h have "handle_push_event {} p s = (Inserted, s @ [d])"
      by (simp add: handle_push_event_eq)
    with t show "webhook repr {} t (Inr p) s = (Response 200 ''success'', s @ [d])"
      by (simp add: webhook_def)
  qed
  have opened: "classify_truthy t p = PullRequestOpened \<longrightarrow>
        webhook repr f t (Inr p) s
          = (Response 200 ''success'', snd (handle_pull_request_event repr f p s))
        \<and> pr_event_doc repr p \<noteq> Inr None
        \<and> (\<forall>d. pr_event_doc repr p = Inr (Some d) \<longrightarrow> action d = ''PULL_REQUEST'')"
  proof
    assume c: "classify_truthy t p = PullRequestOpened"
    then have t: "t = Some ''pull_request''" and a: "subscript p ''action'' = Inr (JStr ''opened'')"
      by (auto simp: cdefs split: if_splits)
    have w: "webhook repr f t (Inr p) s
          = (Response 200 ''success'', snd (handle_pull_request_event repr f p s))"
      using t by (simp add: webhook_def)
    show "webhook repr f t (Inr p) s
          = (Response 200 ''success'', snd (handle_pull_request_event repr f p s))
        \<and> pr_event_doc repr p \<noteq> Inr None
        \<and> (\<forall>d. pr_event_doc repr p = Inr (Some d) \<longrightarrow> action d = ''PULL_REQUEST'')"
      using w a pr_event_doc_action [of repr p] by auto
  qed
  have opened_stored: "classify_truthy t p = PullRequestOpened
        \<and> subscript p ''pull_request'' = Inr pr \<and> pr_fields pr idv a fb tb
        \<and> subscript pr ''created_at'' = Inr ts
        \<and> (\<forall>x\<in>set s. request_id x \<noteq> JStr (''pr_'' @ py_str repr idv)) \<longrightarrow>
      webhook repr {} t (Inr p) s
        = (Response 200 ''success'',
           s @ [\<lparr> request_id = JStr (''pr_'' @ py_str repr idv), author = a,
                   action = ''PULL_REQUEST'', from_branch = fb, to_branch = tb,
                   timestamp = ts \<rparr>])"
  proof
    assume h: "classify_truthy t p = PullRequestOpened
        \<and> subscript p ''pull_request'' = Inr pr \<and> pr_fields pr idv a fb tb
        \<and> subscript pr ''created_at'' = Inr ts
        \<and> (\<forall>x\<in>set s. request_id x \<noteq> JStr (''pr_'' @ py_str repr idv))"
    define dO where "dO = \<lparr> request_id = JStr (''pr_'' @ py_str repr idv), author = a,
                   action = ''PULL_REQUEST'', from_branch = fb, to_branch = tb,
                   timestamp = ts \<rparr>"
    from h have t: "t = Some ''pull_request''" and act: "subscript p ''action'' = Inr (JStr ''opened'')"
      by (auto simp: cdefs split: if_splits)
    from h have fields: "subscript pr ''id'' = Inr idv" "field_path pr ''user'' ''login'' = Inr a"
        "field_path pr ''head'' ''ref'' = Inr fb" "field_path pr ''base'' ''ref'' = Inr tb"
      by (simp_all add: pr_fields_def)
    from h have pl: "subscript p ''pull_request'' = Inr pr" and cr: "subscript pr ''created_at'' = Inr ts"
      by simp_all
    have doc: "pr_event_doc repr p = Inr (Some dO)"
      unfolding dO_def by (rule pr_event_doc_opened [OF act pl fields cr])
    have fresh: "\<not> (\<exists>x\<in>set s. request_id x = request_id dO)"
      using h by (simp add: dO_def)
    have "handle_pull_request_event repr {} p s = (Inserted, s @ [dO])"
      using fresh by (simp add: handle_pull_request_event_eq [OF doc])
    with t have "webhook repr {} t (Inr p) s = (Response 200 ''success'', s @ [dO])"
      by (simp add: webhook_def)
    then show "webhook repr {} t (Inr p) s
        = (Response 200 ''success'',
           s @ [\<lparr> request_id = JStr (''pr_'' @ py_str repr idv), author = a,
                   action = ''PULL_REQUEST'', from_branch = fb, to_branch = tb,
                   timestamp = ts \<rparr>])"
      unfolding dO_def .
  qed
  have merge: "classify_truthy t p = Merge \<longrightarrow>
        webhook repr f t (Inr p) s
          = (Response 200 ''success'', snd (handle_pull_request_event repr f p s))
        \<and> pr_event_doc repr p \<noteq> Inr None
        \<and> (\<forall>d. pr_event_doc repr p = Inr (Some d) \<longrightarrow> action d = ''MERGE'')"
  proof
    assume c: "classify_truthy t p = Merge"
    then have t: "t = Some ''pull_request''"
      and a: "subscript p ''action'' = Inr (JStr ''closed'')" "merged_truthy p"
      by (auto simp: cdefs split: if_splits)
    have w: "webhook repr f t (Inr p) s
          = (Response 200 ''success'', snd (handle_pull_request_event repr f p s))"
      using t by (simp add: webhook_def)
    show "webhook repr f t (Inr p) s
          = (Response 200 ''success'', snd (handle_pull_request_event repr f p s))
        \<and> pr_event_doc repr p \<noteq> Inr None
        \<and> (\<forall>d. pr_event_doc repr p = Inr (Some d) \<longrightarrow> action d = ''MERGE'')"
      using w a pr_event_doc_action [of repr p] by auto
  qed
  have merge_stored: "classify_truthy t p = Merge
        \<and> subscript p ''pull_request'' = Inr pr \<and> pr_fields pr idv a fb tb
        \<and> subscript pr ''updated_at'' = Inr upd \<and> dict_get pr ''merged_at'' upd = Inr ts
        \<and> (\<forall>x\<in>set s. request_id x \<noteq> JStr (''merge_'' @ py_str repr idv)) \<longrightarrow>
      webhook repr {} t (Inr p) s
        = (Response 200 ''success'',
           s @ [\<lparr> request_id = JStr (''merge_'' @ py_str repr idv), author = a,
                   action = ''MERGE'', from_branch = fb, to_branch = tb, timestamp = ts \<rparr>])"
  proof
    assume h: "classify_truthy t p = Merge
        \<and> subscript p ''pull_request'' = Inr pr \<and> pr_fields pr idv a fb tb
        \<and> subscript pr ''updated_at'' = Inr upd \<and> dict_get pr ''merged_at'' upd = Inr ts
        \<and> (\<forall>x\<in>set s. request_id x \<noteq> JStr (''merge_'' @ py_str repr idv))"
    define dM where "dM = \<lparr> request_id = JStr (''merge_'' @ py_str repr idv), author = a,
                   action = ''MERGE'', from_branch = fb, to_branch = tb, timestamp = ts \<rparr>"
    from h have t: "t = Some ''pull_request''"
      and act: "subscript p ''action'' = Inr (JStr ''closed'')" and mt: "merged_truthy p"
      by (auto simp: cdefs split: if_splits)
    from h have fields: "subscript pr ''id'' = Inr idv" "field_path pr ''user'' ''login'' = Inr a"
        "field_path pr ''head'' ''ref'' = Inr fb" "field_path pr ''base'' ''ref'' = Inr tb"
      by (simp_all add: pr_fields_def)
    from h have pl: "subscript p ''pull_request'' = Inr pr"
      and up: "subscript pr ''updated_at'' = Inr upd"
      and ma: "dict_get pr ''merged_at'' upd = Inr ts"
      by simp_all
    obtain m where m: "dict_get pr ''merged'' (JBool False) = Inr m" "truthy m"
      using mt pl by (auto simp: merged_truthy_def split: sum.splits)
    obtain ts' where ts': "dict_get pr ''merged_at'' upd = Inr ts'"
      and doc': "pr_event_doc repr p =
             Inr (Some \<lparr> request_id = JStr (''merge_'' @ py_str repr idv), author = a,
                         action = ''MERGE'', from_branch = fb, to_branch = tb,
                         timestamp = ts' \<rparr>)"
      using pr_event_doc_merged [OF act pl fields up m, of repr] by blast
    from ts' ma have "ts' = ts" by simp
    with doc' have doc: "pr_event_doc repr p = Inr (Some dM)"
      by (simp add: dM_def)
    have fresh: "\<not> (\<exists>x\<in>set s. request_id x = request_id dM)"
      using h by (simp add: dM_def)
    have "handle_pull_request_event repr {} p s = (Inserted, s @ [dM])"
      using fresh by (simp add: handle_pull_request_event_eq [OF doc])
    with t have "webhook repr {} t (Inr p) s = (Response 200 ''success'', s @ [dM])"
      by (simp add: webhook_def)
    then show "webhook repr {} t (Inr p) s
        = (Response 200 ''success'',
           s @ [\<lparr> request_id = JStr (''merge_'' @ py_str repr idv), author = a,
                   action = ''MERGE'', from_branch = fb, to_branch = tb, timestamp = ts \<rparr>])"
      unfolding dM_def .
  qed
  have unhandled: "classify_truthy t p = Unhandled \<longrightarrow>
        webhook repr f t (Inr p) s = (Response 200 ''success'', s)
        \<and> (t = Some ''pull_request'' \<longrightarrow> (\<forall>d. pr_event_doc repr p \<noteq> Inr (Some d)))"
  proof
    assume c: "classify_truthy t p = Unhandled"
    show "webhook repr f t (Inr p) s = (Response 200 ''success'', s)
        \<and> (t = Some ''pull_request'' \<longrightarrow> (\<forall>d. pr_event_doc repr p \<noteq> Inr (Some d)))"
    proof (cases "t = Some ''pull_request''")
      case False
      with c show ?thesis by (auto simp: cdefs webhook_def split: if_splits)
    next
      case True
      with c have a: "subscript p ''action'' \<noteq> Inr (JStr ''opened'')"
          "\<not> (subscript p ''action'' = Inr (JStr ''closed'') \<and> merged_truthy p)"
        by (auto simp: cdefs split: if_splits)
      have r: "pr_event_doc repr p = Inr None \<or> (\<exists>e. pr_event_doc repr p = Inl e)"
        using a pr_event_doc_action [of repr p] by (cases "pr_event_doc repr p") auto
      then have "snd (handle_pull_request_event repr f p s) = s"
        by (auto simp: handle_pull_request_event_ignored handle_pull_request_event_failed)
      with True r show ?thesis by (auto simp: webhook_def)
    qed
  qed
  have other: "t \<noteq> Some ''push'' \<and> t \<noteq> Some ''pull_request'' \<longrightarrow> classify_truthy t p = Unhandled"
    by (simp add: cdefs)
  have absent: "classify_truthy None p = Unhandled"
    by (simp add: cdefs)
  have agree: "(\<forall>v. field_path p ''pull_request'' ''merged'' = Inr v \<longrightarrow> v = JBool True \<or> v = JBool False)
        \<longrightarrow> classify_truthy t p = classify t p"
    by (simp add: cdefs classify_def merged_tests_agree)
  from push push_stored opened opened_stored merge merge_stored unhandled other absent agree
  show ?thesis by blast
qed

theorem webhook_classification_witness:
  "classify (Some ''pull_request'') (pr_123 ''opened'' []) = PullRequestOpened
   \<and> webhook plain_repr {} (Some ''pull_request'') (Inr (pr_123 ''opened'' [])) [doc_9fceb02]
       = (Response 200 ''success'', [doc_9fceb02, doc_pr_123])
   \<and> classify (Some ''pull_request'') (pr_123 ''closed'' [(''merged'', JBool True)]) = Merge
   \<and> webhook plain_repr {} (Some ''pull_request'')
        (Inr (pr_123 ''closed'' [(''merged'', JBool True)])) [doc_9fceb02]
       = (Response 200 ''success'', [doc_9fceb02, doc_merge_123 (JStr ''2024-01-02T08:00:00Z'')])
   \<and> classify (Some ''push'') push_9fceb02 = Push
   \<and> webhook plain_repr {} (Some ''push'') (Inr push_9fceb02) [doc_pr_123]
       = (Response 200 ''success'', [doc_pr_123, doc_9fceb02])
   \<and> classify (Some ''pull_request'') (pr_123 ''closed'' [(''merged'', JBool False)]) = Unhandled
   \<and> webhook plain_repr {} (Some ''pull_request'')
        (Inr (pr_123 ''closed'' [(''merged'', JBool False)])) [doc_9fceb02]
       = (Response 200 ''success'', [doc_9fceb02])
   \<and> classify (Some ''ping'') JNull = Unhandled
   \<and> webhook plain_repr {} (Some ''ping'') (Inr JNull) [doc_9fceb02]
       = (Response 200 ''success'', [doc_9fceb02])
   \<and> classify None JNull = Unhandled
   \<and> webhook plain_repr {} None (Inr JNull) [doc_9fceb02]
       = (Response 200 ''success'', [doc_9fceb02])"
proof -
  note defs = classify_def classify_truthy_def classify_with_def merged_true_def
    merged_truthy_def field_path_def bind_exn_def pr_fields_def pr_123_def
  have c1: "classify (Some ''pull_request'') (pr_123 ''opened'' []) = PullRequestOpened"
    by (simp add: defs)
  have c2: "classify (Some ''pull_request'') (pr_123 ''closed'' [(''merged'', JBool True)]) = Merge"
    by (simp add: defs)
  have c3: "classify (Some ''push'') push_9fceb02 = Push"
    by (simp add: defs)
  have c4: "classify (Some ''pull_request'') (pr_123 ''closed'' [(''merged'', JBool False)]) = Unhandled"
    by (simp add: defs)
  have c5: "classify (Some ''ping'') JNull = Unhandled"
    by (simp add: defs)
  have c6: "classify None JNull = Unhandled"
    by (simp add: defs)
  note opened = webhook_classification
      [where t = "Some ''pull_request''" and p = "pr_123 ''opened'' []" and repr = plain_repr
         and s = "[doc_9fceb02]"
         and pr = "JObj [(''id'', JInt 123),
                     (''user'', JObj [(''login'', JStr ''hubot'')]),
                     (''head'', JObj [(''ref'', JStr ''feature'')]),
                     (''base'', JObj [(''ref'', JStr ''main'')]),
                     (''created_at'', JStr ''2024-01-01T20:00:00Z''),
                     (''updated_at'', JStr ''2024-01-02T08:00:00Z'')]"
         and idv = "JInt 123" and a = "JStr ''hubot''"
         and fb = "JStr ''feature''" and tb = "JStr ''main''"
         and ts = "JStr ''2024-01-01T20:00:00Z''" and upd = JNull
         and f = "{}" and d = doc_9fceb02,
       THEN conjunct2, THEN conjunct2, THEN conjunct2, THEN conjunct1]
  have w1: "webhook plain_repr {} (Some ''pull_request'') (Inr (pr_123 ''opened'' [])) [doc_9fceb02]
       = (Response 200 ''success'', [doc_9fceb02, doc_pr_123])"
    using opened by (simp add: defs doc_9fceb02_def doc_pr_123_def show_123)
  note merged = webhook_classification
      [where t = "Some ''pull_request''" and p = "pr_123 ''closed'' [(''merged'', JBool True)]"
         and repr = plain_repr and s = "[doc_9fceb02]"
         and pr = "JObj [(''id'', JInt 123),
                     (''user'', JObj [(''login'', JStr ''hubot'')]),
                     (''head'', JObj [(''ref'', JStr ''feature'')]),
                     (''base'', JObj [(''ref'', JStr ''main'')]),
                     (''created_at'', JStr ''2024-01-01T20:00:00Z''),
                     (''updated_at'', JStr ''2024-01-02T08:00:00Z''),
                     (''merged'', JBool True)]"
         and idv = "JInt 123" and a = "JStr ''hubot''"
         and fb = "JStr ''feature''" and tb = "JStr ''main''"
         and upd = "JStr ''2024-01-02T08:00:00Z''" and ts = "JStr ''2024-01-02T08:00:00Z''"
         and f = "{}" and d = doc_9fceb02,
       THEN conjunct2, THEN conjunct2, THEN conjunct2, THEN conjunct2, THEN conjunct2,
       THEN conjunct1]
  have w2: "webhook plain_repr {} (Some ''pull_request'')
        (Inr (pr_123 ''closed'' [(''merged'', JBool True)])) [doc_9fceb02]
       = (Response 200 ''success'', [doc_9fceb02, doc_merge_123 (JStr ''2024-01-02T08:00:00Z'')])"
    using merged by (simp add: defs doc_9fceb02_def doc_merge_123_def show_123)
  note pushed = webhook_classification
      [where t = "Some ''push''" and p = push_9fceb02 and repr = plain_repr
         and s = "[doc_pr_123]" and d = doc_9fceb02 and f = "{}"
         and pr = JNull and idv = JNull and a = JNull and fb = JNull and tb = JNull
         and ts = JNull and upd = JNull,
       THEN conjunct2, THEN conjunct1]
  have w3: "webhook plain_repr {} (Some ''push'') (Inr push_9fceb02) [doc_pr_123]
       = (Response 200 ''success'', [doc_pr_123, doc_9fceb02])"
    using pushed push_9fceb02_doc
    by (simp add: classify_truthy_def classify_with_def doc_9fceb02_def doc_pr_123_def)
  note ignored = webhook_classification
      [where t = "Some ''pull_request''" and p = "pr_123 ''closed'' [(''merged'', JBool False)]"
         and repr = plain_repr and s = "[doc_9fceb02]" and f = "{}" and d = doc_9fceb02
         and pr = JNull and idv = JNull and a = JNull and fb = JNull and tb = JNull
         and ts = JNull and upd = JNull,
       THEN conjunct2, THEN conjunct2, THEN conjunct2, THEN conjunct2, THEN conjunct2,
       THEN conjunct2, THEN conjunct1]
  have w4: "webhook plain_repr {} (Some ''pull_request'')
        (Inr (pr_123 ''closed'' [(''merged'', JBool False)])) [doc_9fceb02]
       = (Response 200 ''success'', [doc_9fceb02])"
    using ignored by (simp add: defs)
  note ping = webhook_classification
      [where t = "Some ''ping''" and p = JNull and repr = plain_repr and s = "[doc_9fceb02]"
         and f = "{}" and d = doc_9fceb02
         and pr = JNull and idv = JNull and a = JNull and fb = JNull and tb = JNull
         and ts = JNull and upd = JNull,
       THEN conjunct2, THEN conjunct2, THEN conjunct2, THEN conjunct2, THEN conjunct2,
       THEN conjunct2, THEN conjunct1]
  have w5: "webhook plain_repr {} (Some ''ping'') (Inr JNull) [doc_9fceb02]
       = (Response 200 ''success'', [doc_9fceb02])"
    using ping by (simp add: defs)
  note untagged = webhook_classification
      [where t = None and p = JNull and repr = plain_repr and s = "[doc_9fceb02]" and f = "{}"
         and d = doc_9fceb02
         and pr = JNull and idv = JNull and a = JNull and fb = JNull and tb = JNull
         and ts = JNull and upd = JNull,
       THEN conjunct2, THEN conjunct2, THEN conjunct2, THEN conjunct2, THEN conjunct2,
       THEN conjunct2, THEN conjunct1]
  have w6: "webhook plain_repr {} None (Inr JNull) [doc_9fceb02]
       = (Response 200 ''success'', [doc_9fceb02])"
    using untagged by (simp add: defs)
  from c1 c2 c3 c4 c5 c6 w1 w2 w3 w4 w5 w6 show ?thesis by blast
qed

text \<open>
  C8 as claimed fails: with a store whose \<open>find_one\<close> raises while a push is served, or
  whose \<open>insert_one\<close> raises while an opened pull request is served, the handler logs the
  failure and the endpoint answers success.
\<close>

theorem store_error_counterexample:
  "find_one {FindOne} (JStr ''9fceb02'') [] = Inl StoreError
   \<and> handle_push_event {FindOne} push_9fceb02 [] = (Failed StoreError, [])
   \<and> webhook plain_repr {FindOne} (Some ''push'') (Inr push_9fceb02) []
       = (Response 200 ''success'', [])
   \<and> insert_one {InsertOne} doc_pr_123 [] = Inl StoreError
   \<and> handle_pull_request_event plain_repr {InsertOne} (pr_123 ''opened'' []) []
       = (Failed StoreError, [])
   \<and> webhook plain_repr {InsertOne} (Some ''pull_request'') (Inr (pr_123 ''opened'' [])) []
       = (Response 200 ''success'', [])"
  by (simp add: find_one_def insert_one_def webhook_def
        handle_push_event_eq [OF push_9fceb02_doc]
        handle_pull_request_event_eq [OF pr_123_opened_doc])


text \<open>
  C8 amended. When a store lookup or insert raises while a notification is served, the
  handler catches the error: nothing is stored for that notification and the endpoint
  still answers with the success response. Every request whose body was read is answered
  with success; the failure response is given only when reading the body fails, before a
  handler runs.
\<close>

theorem store_error_acknowledged:
  "(FindOne \<in> f \<and> push_event_doc p = Inr d \<longrightarrow>
      handle_push_event f p s = (Failed StoreError, s))
   \<and> (InsertOne \<in> f \<and> push_event_doc p = Inr d
        \<and> (\<forall>x\<in>set s. request_id x \<noteq> request_id d) \<longrightarrow>
      handle_push_event f p s = (Failed StoreError, s))
   \<and> (FindOne \<in> f \<and> pr_event_doc repr q = Inr (Some e) \<longrightarrow>
      handle_pull_request_event repr f q s = (Failed StoreError, s))
   \<and> (InsertOne \<in> f \<and> pr_event_doc repr q = Inr (Some e)
        \<and> (\<forall>x\<in>set s. request_id x \<noteq> request_id e) \<longrightarrow>
      handle_pull_request_event repr f q s = (Failed StoreError, s))
   \<and> (fst (handle_push_event f p s) = Failed x \<longrightarrow>
        webhook repr f (Some ''push'') (Inr p) s = (Response 200 ''success'', s))
   \<and> (fst (handle_pull_request_event repr f q s) = Failed x \<longrightarrow>
        webhook repr f (Some ''pull_request'') (Inr q) s = (Response 200 ''success'', s))
   \<and> fst (webhook repr f t (Inr p) s) = Response 200 ''success''
   \<and> webhook repr f t (Inl x) s = (Response 500 ''error'', s)"
proof -
  have a: "FindOne \<in> f \<and> push_event_doc p = Inr d \<longrightarrow>
      handle_push_event f p s = (Failed StoreError, s)"
    by (simp add: handle_push_event_eq)
  have b: "InsertOne \<in> f \<and> push_event_doc p = Inr d
        \<and> (\<forall>x\<in>set s. request_id x \<noteq> request_id d) \<longrightarrow>
      handle_push_event f p s = (Failed StoreError, s)"
    by (simp add: handle_push_event_eq)
  have c: "FindOne \<in> f \<and> pr_event_doc repr q = Inr (Some e) \<longrightarrow>
      handle_pull_request_event repr f q s = (Failed StoreError, s)"
    by (simp add: handle_pull_request_event_eq)
  have d: "InsertOne \<in> f \<and> pr_event_doc repr q = Inr (Some e)
        \<and> (\<forall>x\<in>set s. request_id x \<noteq> request_id e) \<longrightarrow>
      handle_pull_request_event repr f q s = (Failed StoreError, s)"
    by (simp add: handle_pull_request_event_eq)
  have e: "fst (handle_push_event f p s) = Failed x \<longrightarrow>
        webhook repr f (Some ''push'') (Inr p) s = (Response 200 ''success'', s)"
    by (cases "push_event_doc p")
       (auto simp: webhook_def handle_push_event_failed handle_push_event_eq split: if_splits)
  have g: "fst (handle_pull_request_event repr f q s) = Failed x \<longrightarrow>
        webhook repr f (Some ''pull_request'') (Inr q) s = (Response 200 ''success'', s)"
  proof (cases "pr_event_doc repr q")
    case (Inl err)
    then show ?thesis by (simp add: webhook_def handle_pull_request_event_failed)
  next
    case (Inr r)
    then show ?thesis
      by (cases r)
         (auto simp: webhook_def handle_pull_request_event_ignored handle_pull_request_event_eq
               split: if_splits)
  qed
  have h: "fst (webhook repr f t (Inr p) s) = Response 200 ''success''"
    by (simp add: webhook_def)
  have i: "webhook repr f t (Inl x) s = (Response 500 ''error'', s)"
    by (simp add: webhook_def)
  from a b c d e g h i show ?thesis by blast
qed


theorem store_error_acknowledged_witness:
  "handle_push_event {FindOne} push_9fceb02 [doc_pr_123] = (Failed StoreError, [doc_pr_123])
   \<and> handle_push_event {InsertOne} push_9fceb02 [doc_pr_123] = (Failed StoreError, [doc_pr_123])
   \<and> handle_pull_request_event plain_repr {FindOne} (pr_123 ''opened'' []) [doc_9fceb02]
        = (Failed StoreError, [doc_9fceb02])
   \<and> handle_pull_request_event plain_repr {InsertOne} (pr_123 ''opened'' []) [doc_9fceb02]
        = (Failed StoreError, [doc_9fceb02])
   \<and> webhook plain_repr {FindOne} (Some ''push'') (Inr push_9fceb02) [doc_pr_123]
        = (Response 200 ''success'', [doc_pr_123])
   \<and> webhook plain_repr {InsertOne} (Some ''pull_request'') (Inr (pr_123 ''opened'' [])) [doc_9fceb02]
        = (Response 200 ''success'', [doc_9fceb02])"
proof -
  have k1: "\<forall>x\<in>set [doc_pr_123]. request_id x \<noteq> request_id doc_9fceb02"
    by (simp add: doc_pr_123_def doc_9fceb02_def)
  have k2: "\<forall>x\<in>set [doc_9fceb02]. request_id x \<noteq> request_id doc_pr_123"
    by (simp add: doc_pr_123_def doc_9fceb02_def)
  note a = store_error_acknowledged
    [of "{FindOne}" push_9fceb02 doc_9fceb02 "[doc_pr_123]" plain_repr "pr_123 ''opened'' []"
        doc_pr_123 StoreError]
  note b = store_error_acknowledged
    [of "{InsertOne}" push_9fceb02 doc_9fceb02 "[doc_pr_123]" plain_repr "pr_123 ''opened'' []"
        doc_pr_123 StoreError]
  note c = store_error_acknowledged
    [of "{FindOne}" push_9fceb02 doc_9fceb02 "[doc_9fceb02]" plain_repr "pr_123 ''opened'' []"
        doc_pr_123 StoreError]
  note d = store_error_acknowledged
    [of "{InsertOne}" push_9fceb02 doc_9fceb02 "[doc_9fceb02]" plain_repr "pr_123 ''opened'' []"
        doc_pr_123 StoreError]
  show ?thesis
    using a b c d k1 k2 push_9fceb02_doc pr_123_opened_doc [of plain_repr]
    by simp
qed


section \<open>Two handlers at the same time\<close>

text \<open>
  Two steps of one thread, with nothing in between, are the handler of the source; two
  identical pushes served one after the other store one document.
\<close>

lemma thread_step_twice_push:
  "thread_step repr f (fst (thread_step repr f (Pending PushHandler p) s))
       (snd (thread_step repr f (Pending PushHandler p) s))
     = (Done (fst (handle_push_event f p s)), snd (handle_push_event f p s))"
proof (cases "push_event_doc p")
  case (Inl e)
  then show ?thesis by (simp add: extract_doc_def bind_exn_def handle_push_event_failed)
next
  case (Inr d)
  have "(find (\<lambda>e. request_id e = request_id d) s = None)
          = (\<not> (\<exists>x\<in>set s. request_id x = request_id d))"
    unfolding find_None_iff by blast
  then show ?thesis
    using Inr
    by (cases "find (\<lambda>e. request_id e = request_id d) s")
       (auto simp: extract_doc_def bind_exn_def handle_push_event_eq find_one_def insert_one_def)
qed

lemma thread_step_twice_pull_request:
  "thread_step repr f (fst (thread_step repr f (Pending PullRequestHandler p) s))
       (snd (thread_step repr f (Pending PullRequestHandler p) s))
     = (Done (fst (handle_pull_request_event repr f p s)),
        snd (handle_pull_request_event repr f p s))"
proof (cases "pr_event_doc repr p")
  case (Inl e)
  then show ?thesis by (simp add: extract_doc_def handle_pull_request_event_failed)
next
  case (Inr r)
  show ?thesis
  proof (cases r)
    case None
    with Inr show ?thesis by (simp add: extract_doc_def handle_pull_request_event_ignored)
  next
    case (Some d)
    have "(find (\<lambda>e. request_id e = request_id d) s = None)
            = (\<not> (\<exists>x\<in>set s. request_id x = request_id d))"
      unfolding find_None_iff by blast
    then show ?thesis
      using Inr Some
      by (cases "find (\<lambda>e. request_id e = request_id d) s")
         (auto simp: extract_doc_def handle_pull_request_event_eq find_one_def insert_one_def)
  qed
qed

lemma one_after_the_other:
  "run_schedule plain_repr [0, 0, 1, 1]
     ([Pending PushHandler push_9fceb02, Pending PushHandler push_9fceb02], [])
   = ([Done Inserted, Done AlreadyExists], [doc_9fceb02])"
  by (simp add: extract_doc_def bind_exn_def push_9fceb02_doc find_one_def insert_one_def)


text \<open>
  C9 fails on the code: two pushes with the same head commit, each making its lookup
  before the other has inserted, both insert. Both handlers report an insertion and the
  collection holds two documents with the same identity key.
\<close>

theorem concurrent_duplicate_insert:
  "run_schedule plain_repr [0, 1, 0, 1]
     ([Pending PushHandler push_9fceb02, Pending PushHandler push_9fceb02], [])
   = ([Done Inserted, Done Inserted], [doc_9fceb02, doc_9fceb02])"
  by (simp add: extract_doc_def bind_exn_def push_9fceb02_doc find_one_def insert_one_def)

section \<open>Properties of the feed\<close>

text \<open>
  The feed is the collection, rearranged so that the stored timestamp values descend in
  the order of the store, each document with its rendered timestamp.
\<close>

lemma bson_le_total: "bson_le a b \<or> bson_le b a"
  by (cases a; cases b) auto

lemma bson_le_trans: "bson_le a b \<Longrightarrow> bson_le b c \<Longrightarrow> bson_le a c"
  by (cases a; cases b; cases c) auto

lemma mset_insert_desc: "mset (insert_desc x xs) = add_mset x (mset xs)"
  by (induction xs) auto

lemma mset_sort_desc: "mset (sort_desc xs) = mset xs"
  by (induction xs) (auto simp: sort_desc_def mset_insert_desc)

lemma set_insert_desc: "set (insert_desc x xs) = insert x (set xs)"
  by (induction xs) auto

lemma sorted_insert_desc:
  "sorted_wrt (\<lambda>a b. bson_le (timestamp b) (timestamp a)) xs \<Longrightarrow>
   sorted_wrt (\<lambda>a b. bson_le (timestamp b) (timestamp a)) (insert_desc x xs)"
proof (induction xs)
  case Nil
  then show ?case by simp
next
  case (Cons y ys)
  show ?case
  proof (cases "bson_le (timestamp y) (timestamp x)")
    case True
    with Cons.prems show ?thesis
      by (auto intro: bson_le_trans)
  next
    case False
    then have "bson_le (timestamp x) (timestamp y)"
      using bson_le_total by blast
    with False Cons show ?thesis
      by (auto simp: set_insert_desc)
  qed
qed

lemma sorted_sort_desc:
  "sorted_wrt (\<lambda>a b. bson_le (timestamp b) (timestamp a)) (sort_desc xs)"
  by (induction xs) (auto simp: sort_desc_def sorted_insert_desc)

lemma feed_by_stored_value:
  "get_events parse {} s = Inr (map (\<lambda>event. (event, format_timestamp parse (timestamp event))) (sort_desc s))
   \<and> mset (sort_desc s) = mset s
   \<and> sorted_wrt (\<lambda>a b. bson_le (timestamp b) (timestamp a)) (sort_desc s)"
  by (simp add: get_events_def mset_sort_desc sorted_sort_desc)

lemma replace_from_same: "new = old \<Longrightarrow> replace_from old new s = s"
proof (induction old new s rule: replace_from.induct)
  case (1 old new)
  show ?case by simp
next
  case (2 old new c cs)
  show ?case
  proof (cases "old \<noteq> [] \<and> take (length old) (c # cs) = old")
    case True
    then have "replace_from old new (c # cs) = new @ replace_from old new (drop (length old) (c # cs))"
      by simp
    also have "\<dots> = take (length old) (c # cs) @ drop (length old) (c # cs)"
      using True 2 by simp
    finally show ?thesis by simp
  next
    case False
    with 2 show ?thesis by auto
  qed
qed

lemma py_replace_same: "py_replace old old s = s"
proof (cases "old = []")
  case True
  have "concat (map (\<lambda>c. [c]) s) = s" by (induction s) auto
  with True show ?thesis by (simp add: py_replace_def)
next
  case False
  then show ?thesis by (simp add: py_replace_def replace_from_same)
qed

lemma suffix_agrees: "day \<le> 31 \<Longrightarrow> ordinal_suffix day = spec_suffix day"
  by (auto simp: ordinal_suffix_def spec_suffix_def) presburger+

lemma suffix_cases: "ordinal_suffix day \<in> {''th'', ''st'', ''nd'', ''rd''}"
  by (auto simp: ordinal_suffix_def)

lemma strftime_format:
  "sfx \<in> {''th'', ''st'', ''nd'', ''rd''} \<Longrightarrow>
   strftime dt (''%d'' @ sfx @ '' %B %Y - %I:%M %p UTC'')
     = two_digits (dt_day dt) @ sfx @ '' '' @ month_name (dt_month dt) @ '' ''
       @ show_nat (dt_year dt) @ '' - '' @ two_digits (hour12 (dt_hour dt)) @ '':''
       @ two_digits (dt_minute dt) @ '' '' @ (if dt_hour dt < 12 then ''AM'' else ''PM'')
       @ '' UTC''"
  by (auto simp: directive_def)

lemma length_show_nat_1: "n < 10 \<Longrightarrow> length (show_nat n) = 1"
  by (simp add: show_nat.simps)

lemma length_show_nat_2: "10 \<le> n \<Longrightarrow> n < 100 \<Longrightarrow> length (show_nat n) = 2"
  by (subst show_nat.simps) (simp add: length_show_nat_1)

lemma length_show_nat_3: "100 \<le> n \<Longrightarrow> n < 1000 \<Longrightarrow> length (show_nat n) = 3"
  by (subst show_nat.simps) (simp add: length_show_nat_2)

lemma length_show_nat_4: "1000 \<le> n \<Longrightarrow> n < 10000 \<Longrightarrow> length (show_nat n) = 4"
  by (subst show_nat.simps) (simp add: length_show_nat_3)

lemma length_two_digits: "n < 100 \<Longrightarrow> length (two_digits n) = 2"
  by (cases "n < 10") (simp_all add: two_digits_def length_show_nat_1 length_show_nat_2)

lemma days_in_month_le: "days_in_month y m \<le> 31"
  by (simp add: days_in_month_def)

lemma parse_date_valid:
  "parse_date s = Some (y, m, d) \<Longrightarrow> 1 \<le> y \<and> 1 \<le> m \<and> m \<le> 12 \<and> 1 \<le> d \<and> d \<le> 31"
  using days_in_month_le [of y m]
  by (auto simp: parse_date_def split: if_splits option.splits)

lemma parse_time_valid:
  "parse_time s = Some (h, mi, sec, us) \<Longrightarrow> h < 24 \<and> mi < 60 \<and> sec < 60"
  by (auto simp: parse_time_def split: if_splits option.splits)

lemma fromisoformat_valid:
  assumes "fromisoformat s = Some dt"
  shows "1 \<le> dt_year dt \<and> 1 \<le> dt_month dt \<and> dt_month dt \<le> 12 \<and> 1 \<le> dt_day dt
         \<and> dt_day dt \<le> 31 \<and> dt_hour dt < 24 \<and> dt_minute dt < 60 \<and> dt_second dt < 60"
proof -
  obtain y m d where pd: "parse_date (take 10 s) = Some (y, m, d)"
    using assms by (cases "parse_date (take 10 s)") (auto simp: fromisoformat_def)
  note vd = parse_date_valid [OF pd]
  show ?thesis
  proof (cases "length s = 10")
    case True
    then have "dt = \<lparr> dt_year = y, dt_month = m, dt_day = d, dt_hour = 0, dt_minute = 0,
                   dt_second = 0, dt_microsecond = 0, dt_utcoffset = None \<rparr>"
      using assms pd by (simp add: fromisoformat_def)
    with vd show ?thesis by simp
  next
    case False
    define t where "t = takeWhile (\<lambda>c. c \<noteq> CHR ''+'' \<and> c \<noteq> CHR ''-'') (drop 11 s)"
    define z where "z = dropWhile (\<lambda>c. c \<noteq> CHR ''+'' \<and> c \<noteq> CHR ''-'') (drop 11 s)"
    have eq: "fromisoformat s =
        (case parse_time t of
           None \<Rightarrow> None
         | Some (h, mi, sec, us) \<Rightarrow>
             if z = [] then
               Some \<lparr> dt_year = y, dt_month = m, dt_day = d, dt_hour = h,
                      dt_minute = mi, dt_second = sec, dt_microsecond = us,
                      dt_utcoffset = None \<rparr>
             else (case parse_offset z of
                     None \<Rightarrow> None
                   | Some off \<Rightarrow>
                       Some \<lparr> dt_year = y, dt_month = m, dt_day = d, dt_hour = h,
                              dt_minute = mi, dt_second = sec, dt_microsecond = us,
                              dt_utcoffset = Some off \<rparr>))"
      using False unfolding t_def z_def fromisoformat_def Let_def pd by simp
    obtain h mi sec us where pt: "parse_time t = Some (h, mi, sec, us)"
      using assms eq by (cases "parse_time t") auto
    note vt = parse_time_valid [OF pt]
    have "dt_year dt = y \<and> dt_month dt = m \<and> dt_day dt = d \<and> dt_hour dt = h
            \<and> dt_minute dt = mi \<and> dt_second dt = sec"
    proof (cases "z = []")
      case True
      with assms eq pt show ?thesis by auto
    next
      case nz: False
      with assms eq pt show ?thesis by (cases "parse_offset z") auto
    qed
    with vd vt show ?thesis by auto
  qed
qed

lemma hour12_range: "1 \<le> hour12 h \<and> hour12 h \<le> 12"
  by (auto simp: hour12_def) presburger?


text \<open>
  C7. When the timestamp string parses (after \<open>Z\<close> is replaced by \<open>+00:00\<close>) to a date
  and time with a day from 1 to 31, a year from 1000 to 9999 and a minute below 60, the
  formatter returns \<open>DDth Month YYYY - HH:MM AM/PM UTC\<close>: the day in two digits and its
  suffix (11, 12, 13 take \<open>th\<close>, otherwise the last digit decides: 1 \<open>st\<close>, 2 \<open>nd\<close>,
  3 \<open>rd\<close>, else \<open>th\<close>), the month name, the year in four digits, the hour of the
  12-hour clock and the minute in two digits each, AM or PM. In particular
  \<open>2021-04-01T21:30:00Z\<close> becomes \<open>01st April 2021 - 09:30 PM UTC\<close>.
\<close>

theorem format_timestamp_rendering:
  assumes "parse (py_replace ''Z'' ''+00:00'' s) = Some dt"
    and "1 \<le> dt_day dt" and "dt_day dt \<le> 31"
    and "1000 \<le> dt_year dt" and "dt_year dt \<le> 9999"
    and "dt_minute dt < 60"
  shows "format_timestamp parse (JStr s) = JStr (spec_format dt)
       \<and> length (two_digits (dt_day dt)) = 2
       \<and> length (show_nat (dt_year dt)) = 4
       \<and> length (two_digits (hour12 (dt_hour dt))) = 2
       \<and> length (two_digits (dt_minute dt)) = 2
       \<and> format_timestamp fromisoformat (JStr ''2021-04-01T21:30:00Z'')
           = JStr ''01st April 2021 - 09:30 PM UTC''"
proof -
  have sfx: "ordinal_suffix (dt_day dt) = spec_suffix (dt_day dt)"
    using assms(3) by (rule suffix_agrees)
  have "format_timestamp parse (JStr s)
          = JStr (strftime dt (''%d'' @ ordinal_suffix (dt_day dt) @ '' %B %Y - %I:%M %p UTC''))"
    using assms(1) by (simp add: format_timestamp_def Let_def py_replace_same)
  also have "\<dots> = JStr (spec_format dt)"
    by (simp only: strftime_format [OF suffix_cases] spec_format_def flip: sfx)
  finally have main: "format_timestamp parse (JStr s) = JStr (spec_format dt)" .
  have l1: "length (two_digits (dt_day dt)) = 2"
    using assms(3) by (simp add: length_two_digits)
  have l2: "length (show_nat (dt_year dt)) = 4"
    using assms(4,5) by (simp add: length_show_nat_4)
  have l3: "length (two_digits (hour12 (dt_hour dt))) = 2"
    using hour12_range [of "dt_hour dt"] by (simp add: length_two_digits)
  have l4: "length (two_digits (dt_minute dt)) = 2"
    using assms(6) by (simp add: length_two_digits)
  have ex: "format_timestamp fromisoformat (JStr ''2021-04-01T21:30:00Z'')
           = JStr ''01st April 2021 - 09:30 PM UTC''"
    by code_simp
  from main l1 l2 l3 l4 ex show ?thesis by blast
qed

lemma fromisoformat_thirteenth:
  "fromisoformat (py_replace ''Z'' ''+00:00'' ''2024-06-13T00:05:09Z'')
     = Some \<lparr> dt_year = 2024, dt_month = 6, dt_day = 13, dt_hour = 0, dt_minute = 5,
              dt_second = 9, dt_microsecond = 0, dt_utcoffset = Some 0 \<rparr>"
  by code_simp

lemma spec_format_thirteenth:
  "spec_format \<lparr> dt_year = 2024, dt_month = 6, dt_day = 13, dt_hour = 0, dt_minute = 5,
              dt_second = 9, dt_microsecond = 0, dt_utcoffset = Some 0 \<rparr>
     = ''13th June 2024 - 12:05 AM UTC''"
  by code_simp

theorem format_timestamp_rendering_witness:
  "format_timestamp fromisoformat (JStr ''2024-06-13T00:05:09Z'')
     = JStr ''13th June 2024 - 12:05 AM UTC''"
  using format_timestamp_rendering
    [of fromisoformat "''2024-06-13T00:05:09Z''"
        "\<lparr> dt_year = 2024, dt_month = 6, dt_day = 13, dt_hour = 0, dt_minute = 5,
              dt_second = 9, dt_microsecond = 0, dt_utcoffset = Some 0 \<rparr>"]
    fromisoformat_thirteenth spec_format_thirteenth
  by simp

lemma feed_example:
  "map (timestamp \<circ> fst)
     (projr (get_events fromisoformat {}
        [doc_pr_123 \<lparr> timestamp := JStr ''2024-01-01T00:00:00Z'' \<rparr>,
         doc_9fceb02 \<lparr> timestamp := JStr ''2024-06-01T00:00:00Z'' \<rparr>]))
     = [JStr ''2024-06-01T00:00:00Z'', JStr ''2024-01-01T00:00:00Z'']"
  by code_simp


text \<open>
  C6 fails on the code: the feed is ordered by the stored timestamp strings, not by the
  moments they denote. A push is stored with the timestamp of its head commit as it came,
  \<open>2024-01-01T23:00:00+05:30\<close> (17:30 UTC); a pull request opened at
  \<open>2024-01-01T20:00:00Z\<close> is the more recent event, and the feed lists it second.
\<close>

theorem feed_not_most_recent_first:
  "process_all plain_repr
     [({}, Some ''pull_request'', Inr (pr_123 ''opened'' [])),
      ({}, Some ''push'', Inr push_9fceb02)] [] = [doc_pr_123, doc_9fceb02]
   \<and> get_events fromisoformat {} [doc_pr_123, doc_9fceb02]
       = Inr [(doc_9fceb02, JStr ''01st January 2024 - 11:00 PM UTC''),
              (doc_pr_123, JStr ''01st January 2024 - 08:00 PM UTC'')]
   \<and> instant_of (timestamp doc_9fceb02) = Some 1704130200
   \<and> instant_of (timestamp doc_pr_123) = Some 1704139200"
proof -
  have a: "process_all plain_repr
     [({}, Some ''pull_request'', Inr (pr_123 ''opened'' [])),
      ({}, Some ''push'', Inr push_9fceb02)] [] = [doc_pr_123, doc_9fceb02]"
    by (simp add: webhook_def handle_pull_request_event_eq [OF pr_123_opened_doc]
          handle_push_event_eq [OF push_9fceb02_doc] doc_pr_123_def doc_9fceb02_def)
  have b: "get_events fromisoformat {} [doc_pr_123, doc_9fceb02]
       = Inr [(doc_9fceb02, JStr ''01st January 2024 - 11:00 PM UTC''),
              (doc_pr_123, JStr ''01st January 2024 - 08:00 PM UTC'')]"
    by code_simp
  have c: "instant_of (timestamp doc_9fceb02) = Some 1704130200"
    by code_simp
  have d: "instant_of (timestamp doc_pr_123) = Some 1704139200"
    by code_simp
  from a b c d show ?thesis by blast
qed

end
